theory Spec2Isabelle
  imports Complex_Main "HOL-Library.AList"
begin

section \<open>Data model of \<^verbatim>\<open>kamodo/cli/gui.py\<close>\<close>

text \<open>
  The module builds a Dash application from a configuration of models. Every model is a
  dictionary-like object supplied by the Kamodo library; the plotting library, the
  configuration library and the Dash runtime are collaborators outside the module. The
  embedding keeps the control flow of the module (iteration, \<^verbatim>\<open>try\<close> blocks,
  \<^verbatim>\<open>continue\<close>, \<^verbatim>\<open>raise\<close>, \<^verbatim>\<open>sys.exit\<close>, closures) and
  represents every collaborator call by its outcome: the value returned or the exception
  raised.
\<close>

subsection \<open>Exceptions and printed output\<close>

text \<open>
  \<open>SystemExit\<close> is the only exception of the model that does not derive from Python's
  \<^verbatim>\<open>Exception\<close>: a clause \<^verbatim>\<open>except Exception\<close> lets it through, a bare
  \<^verbatim>\<open>except:\<close> catches it. \<open>Raised msg\<close> stands for any other exception a
  collaborator raises.
\<close>

datatype exn =
    PreventUpdate
  | SystemExit
  | UnboundLocalError
  | ValueError
  | IndexError
  | KeyError
  | TypeError
  | Raised string

fun is_Exception :: "exn \<Rightarrow> bool" where
  "is_Exception SystemExit = False"
| "is_Exception _ = True"

text \<open>Keyword arguments of a plot call: parameter name to sample sequence, in order.\<close>

type_synonym kwargs = "(string \<times> real list) list"

text \<open>The dictionary \<^verbatim>\<open>model_params\<close>: variable name to keyword arguments.\<close>

type_synonym model_params = "(string \<times> kwargs) list"

text \<open>What \<^verbatim>\<open>print\<close> wrote, one entry per call.\<close>

datatype printed =
    Str string
  | ExnMsg exn
  | Params model_params
  | Detail string

text \<open>
  A computation that prints and then either returns or raises: the lines printed, and
  the exception (\<open>Inl\<close>) or the value (\<open>Inr\<close>).
\<close>

type_synonym 'a res = "printed list \<times> (exn + 'a)"

definition bind_res :: "'a res \<Rightarrow> ('a \<Rightarrow> 'b res) \<Rightarrow> 'b res" where
  "bind_res r f =
     (case r of
        (out, Inl e) \<Rightarrow> (out, Inl e)
      | (out, Inr x) \<Rightarrow> (case f x of (out', y) \<Rightarrow> (out @ out', y)))"

subsection \<open>Dictionaries\<close>

text \<open>
  A Python dictionary keeps insertion order and assigning to a present key replaces the
  value in place: that is \<open>AList.update\<close>. \<^verbatim>\<open>d.get(k, default)\<close> and
  \<^verbatim>\<open>d.keys()\<close> follow.
\<close>

definition dict_get :: "('k \<times> 'v) list \<Rightarrow> 'k \<Rightarrow> 'v \<Rightarrow> 'v" where
  "dict_get d k dflt = (case map_of d k of None \<Rightarrow> dflt | Some v \<Rightarrow> v)"

definition dict_keys :: "('k \<times> 'v) list \<Rightarrow> 'k list" where
  "dict_keys d = map fst d"

subsection \<open>Figures\<close>

text \<open>A trace is opaque to the module; it is represented by the values it plots.\<close>

type_synonym trace = "real list"

text \<open>
  The object returned by \<^verbatim>\<open>model.figure(..., return_type = True)\<close>: its
  \<^verbatim>\<open>'data'\<close> entry (a list of traces) and the chart type Kamodo attaches.
\<close>

record kamodo_fig =
  kf_data :: "trace list"
  kf_chart_type :: string

text \<open>
  A Plotly figure: the subplot grid (rows, columns) when it was made by
  \<^verbatim>\<open>make_subplots\<close>, and its traces, each with the (row, column) cell it was added
  to, if any.
\<close>

record figure =
  fig_grid :: "(nat \<times> nat) option"
  fig_data :: "(trace \<times> (nat \<times> nat) option) list"

text \<open>
  \<^verbatim>\<open>make_subplots(rows = r, cols = c)\<close> of Plotly: an empty figure with an r-by-c
  grid; it raises \<^verbatim>\<open>ValueError\<close> unless both are positive.
\<close>

definition make_subplots :: "nat \<Rightarrow> nat \<Rightarrow> exn + figure" where
  "make_subplots rows cols =
     (if rows = 0 \<or> cols = 0 then Inl ValueError
      else Inr \<lparr>fig_grid = Some (rows, cols), fig_data = []\<rparr>)"

text \<open>
  \<^verbatim>\<open>fig.add_trace(trace, row = r, col = c)\<close> of Plotly: appends the trace, placed in
  cell (r, c); it raises when the figure has no grid or the cell is outside it.
\<close>

definition add_trace :: "figure \<Rightarrow> trace \<Rightarrow> nat \<Rightarrow> nat \<Rightarrow> exn + figure" where
  "add_trace fig tr row col =
     (case fig_grid fig of
        None \<Rightarrow> Inl (Raised ''no subplot grid'')
      | Some (rows, cols) \<Rightarrow>
          if 1 \<le> row \<and> row \<le> rows \<and> 1 \<le> col \<and> col \<le> cols
          then Inr (fig\<lparr>fig_data := fig_data fig @ [(tr, Some (row, col))]\<rparr>)
          else Inl (Raised ''cell out of range''))"

text \<open>\<^verbatim>\<open>fig['data'][0]\<close>: the first trace, \<^verbatim>\<open>IndexError\<close> when there is none.\<close>

definition first_trace :: "kamodo_fig \<Rightarrow> exn + trace" where
  "first_trace fig = (case kf_data fig of [] \<Rightarrow> Inl IndexError | tr # _ \<Rightarrow> Inr tr)"

text \<open>
  \<^verbatim>\<open>go.Figure(fig)\<close>, taken to accept the object \<^verbatim>\<open>model.figure\<close> returns:
  a plain figure with the same traces and no subplot grid.
\<close>

definition go_Figure :: "kamodo_fig \<Rightarrow> figure" where
  "go_Figure fig = \<lparr>fig_grid = None, fig_data = map (\<lambda>tr. (tr, None)) (kf_data fig)\<rparr>"

subsection \<open>Models and their configuration\<close>

text \<open>
  A key of the model dictionary. The module inspects three things of it:
  whether \<^verbatim>\<open>type(var_symbol) == UndefinedFunction\<close>, \<^verbatim>\<open>str(var_symbol)\<close> and
  \<^verbatim>\<open>str(type(var_symbol))\<close>.
\<close>

record symbol =
  is_undefined_function :: bool
  sym_str :: string
  type_str :: string

text \<open>
  A value of the model dictionary. The module only passes it to \<^verbatim>\<open>get_defaults\<close>,
  so it is represented by the outcome of that call.
\<close>

datatype func = Func (get_defaults: "exn + kwargs")

datatype indexing = IJ | XY

text \<open>
  A model: \<^verbatim>\<open>model.items()\<close> (so \<^verbatim>\<open>len(model)\<close> is its length),
  \<^verbatim>\<open>model[var_name]\<close>, the outcome of
  \<^verbatim>\<open>model.figure(varname, indexing = ..., return_type = ..., **kwargs)\<close> (argument
  binding included), of \<^verbatim>\<open>model.to_latex(keys = [key], mode = "plain")\<close>, and what
  printing \<^verbatim>\<open>model.detail\<close> shows.
\<close>

record model =
  model_items :: "(symbol \<times> func) list"
  model_getitem :: "string \<Rightarrow> exn + func"
  model_figure :: "string \<Rightarrow> indexing \<Rightarrow> bool \<Rightarrow> kwargs \<Rightarrow> exn + kamodo_fig"
  model_to_latex :: "string \<Rightarrow> exn + string"
  model_detail :: string

text \<open>
  An explicit plot-config entry is only passed to \<^verbatim>\<open>eval_config\<close>; it is
  represented by the outcome of that call. A null entry is \<open>None\<close>.
\<close>

datatype var_args = VarArgs (eval_config: "exn + kwargs")

text \<open>
  One entry of \<^verbatim>\<open>cfg.models\<close>: the outcome of
  \<^verbatim>\<open>hydra.utils.instantiate(model_conf)\<close> and \<^verbatim>\<open>model_conf.plot\<close>
  (\<open>None\<close> when it is null).
\<close>

record model_conf =
  instantiate :: "exn + model"
  plot :: "(string \<times> var_args option) list option"

section \<open>Subplot composition: \<^verbatim>\<open>make_kamodo_subplots\<close>\<close>

text \<open>
  The body of the \<^verbatim>\<open>try\<close> block for one variable: evaluate it with
  \<^verbatim>\<open>indexing = 'ij'\<close> over \<^verbatim>\<open>model_params.get(varname, {})\<close> and add its first
  trace at row \<^verbatim>\<open>plot_count + 1\<close>, column 1.
\<close>

definition plot_row :: "model \<Rightarrow> model_params \<Rightarrow> nat \<Rightarrow> string \<Rightarrow> figure \<Rightarrow> exn + figure" where
  "plot_row model model_params plot_count varname fig_subplots =
     (case model_figure model varname IJ True (dict_get model_params varname []) of
        Inl e \<Rightarrow> Inl e
      | Inr fig \<Rightarrow>
          (case first_trace fig of
             Inl e \<Rightarrow> Inl e
           | Inr tr \<Rightarrow> add_trace fig_subplots tr (plot_count + 1) 1))"

text \<open>
  The loop over \<^verbatim>\<open>enumerate(var_names)\<close>. The bare \<^verbatim>\<open>except:\<close> catches every
  exception of the body, prints two lines and raises \<^verbatim>\<open>PreventUpdate\<close>, which
  leaves the loop and the function.
\<close>

fun subplots_loop :: "model \<Rightarrow> model_params \<Rightarrow> nat \<Rightarrow> string list \<Rightarrow> figure \<Rightarrow> figure res" where
  "subplots_loop model model_params plot_count [] fig_subplots = ([], Inr fig_subplots)"
| "subplots_loop model model_params plot_count (varname # rest) fig_subplots =
     (case plot_row model model_params plot_count varname fig_subplots of
        Inr fig' \<Rightarrow> subplots_loop model model_params (Suc plot_count) rest fig'
      | Inl e \<Rightarrow>
          ([Str (''could not plot '' @ varname @ '' with model_params:''),
            Params model_params],
           Inl PreventUpdate))"

definition make_kamodo_subplots :: "model \<Rightarrow> string list \<Rightarrow> model_params \<Rightarrow> figure res" where
  "make_kamodo_subplots model var_names model_params =
     (case make_subplots (length var_names) 1 of
        Inl e \<Rightarrow> ([], Inl e)
      | Inr fig_subplots \<Rightarrow> subplots_loop model model_params 0 var_names fig_subplots)"

section \<open>The checklist and equations of a tab: \<^verbatim>\<open>get_equation_divs\<close>\<close>

record katex =
  katex_id :: string
  katex_expression :: string

record equation_divs =
  checklist_id :: string
  checklist_options :: "string list"
  checklist_value :: "string list"
  equation_children :: "katex list"

text \<open>
  The loop over \<^verbatim>\<open>model.items()\<close> with its three accumulators \<^verbatim>\<open>equations\<close>,
  \<^verbatim>\<open>options\<close> and \<^verbatim>\<open>selected\<close>. Only keys whose type is not
  \<^verbatim>\<open>UndefinedFunction\<close> get an option; an option is selected when its label is a
  key of \<^verbatim>\<open>model_params\<close>. An exception of \<^verbatim>\<open>to_latex\<close> is not caught.
\<close>

fun equation_loop ::
  "model \<Rightarrow> string \<Rightarrow> model_params \<Rightarrow> (symbol \<times> func) list \<Rightarrow>
   katex list \<Rightarrow> string list \<Rightarrow> string list \<Rightarrow> exn + (katex list \<times> string list \<times> string list)" where
  "equation_loop model model_name model_params [] equations options selected =
     Inr (equations, options, selected)"
| "equation_loop model model_name model_params ((var_symbol, func) # rest) equations options selected =
     (if \<not> is_undefined_function var_symbol then
        (let var_label = type_str var_symbol;
             selected' = (if type_str var_symbol \<in> set (dict_keys model_params)
                          then selected @ [var_label] else selected);
             options' = options @ [var_label]
         in case model_to_latex model (sym_str var_symbol) of
              Inl e \<Rightarrow> Inl e
            | Inr expr \<Rightarrow>
                equation_loop model model_name model_params rest
                  (equations @ [\<lparr>katex_id = model_name @ ''-'' @ sym_str var_symbol @ ''-expression'',
                                  katex_expression = expr\<rparr>])
                  options' selected')
      else equation_loop model model_name model_params rest equations options selected)"

definition get_equation_divs :: "model \<Rightarrow> string \<Rightarrow> model_params \<Rightarrow> exn + equation_divs" where
  "get_equation_divs model model_name model_params =
     (case equation_loop model model_name model_params (model_items model) [] [] [] of
        Inl e \<Rightarrow> Inl e
      | Inr (equations, options, selected) \<Rightarrow>
          Inr \<lparr>checklist_id = ''checklist-'' @ model_name,
               checklist_options = options,
               checklist_value = selected,
               equation_children = equations\<rparr>)"

section \<open>The application and its callbacks\<close>

text \<open>The value of a component property that a callback reads.\<close>

datatype input_value = Checked "string list" | Range "real list" | Count int

text \<open>
  A registered callback: the graph whose \<^verbatim>\<open>figure\<close> it writes, the ids of the
  components it listens to, and the decorated function. The function is a closure: it is
  a HOL function built from the values that were bound when it was defined.
\<close>

record callback =
  cb_output :: string
  cb_inputs :: "string list"
  cb_update :: "input_value list \<Rightarrow> figure res"

record tab =
  tab_label :: string
  tab_equation_divs :: equation_divs
  tab_graph_id :: string
  tab_figure :: figure

record dash_app =
  app_tabs :: "tab list"
  app_callbacks :: "callback list"

text \<open>
  The inner function \<^verbatim>\<open>update_subplot\<close> of \<^verbatim>\<open>generate_subplot_callback\<close>; its free
  variables \<^verbatim>\<open>model\<close> and \<^verbatim>\<open>model_params\<close> are the parameters of the enclosing call.
\<close>

definition update_subplot :: "model \<Rightarrow> model_params \<Rightarrow> string list \<Rightarrow> figure res" where
  "update_subplot model model_params var_names =
     (if length var_names > 0 then make_kamodo_subplots model var_names model_params
      else ([], Inl PreventUpdate))"

text \<open>
  What the decorator \<^verbatim>\<open>app.callback(Output(graph_id, 'figure'),
  [Input('checklist-<model_name>', 'value')])\<close> registers: Dash calls the function with
  the checklist's value as its only argument.
\<close>

definition subplot_callback :: "string \<Rightarrow> model \<Rightarrow> string \<Rightarrow> model_params \<Rightarrow> callback" where
  "subplot_callback graph_id model model_name model_params =
     \<lparr>cb_output = graph_id,
      cb_inputs = [''checklist-'' @ model_name],
      cb_update = (\<lambda>args. case args of
                      [Checked var_names] \<Rightarrow> update_subplot model model_params var_names
                    | _ \<Rightarrow> ([], Inl TypeError))\<rparr>"

definition generate_subplot_callback ::
  "dash_app \<Rightarrow> string \<Rightarrow> model \<Rightarrow> string \<Rightarrow> model_params \<Rightarrow> dash_app" where
  "generate_subplot_callback app graph_id model model_name model_params =
     app\<lparr>app_callbacks := app_callbacks app @
       [subplot_callback graph_id model model_name model_params]\<rparr>"

subsection \<open>The range-slider callback\<close>

text \<open>
  Modelled from the spec: \<^verbatim>\<open>numpy.linspace\<close>, which is not part of the repository.
  The spec describes a Domain as materialized into \<open>count\<close> sample points by linear
  interpolation between min and max inclusive. Arithmetic is exact rather than floating
  point.
\<close>

definition linspace_points :: "real \<Rightarrow> real \<Rightarrow> nat \<Rightarrow> real list" where
  "linspace_points lo hi count =
     (if count = 1 then [lo]
      else map (\<lambda>i. lo + real i * ((hi - lo) / real (count - 1))) [0..<count])"

text \<open>
  The call \<^verbatim>\<open>np.linspace(*inputs[2*i], num = inputs[2*i+1])\<close>: the slider value must
  unpack to exactly the two positional arguments start and stop, and a negative number of
  samples is refused.
\<close>

definition linspace_call :: "input_value \<Rightarrow> input_value \<Rightarrow> exn + real list" where
  "linspace_call r n =
     (case (r, n) of
        (Range [start, stop], Count num) \<Rightarrow>
          if num < 0 then Inl ValueError else Inr (linspace_points start stop (nat num))
      | _ \<Rightarrow> Inl TypeError)"

definition py_index :: "'a list \<Rightarrow> nat \<Rightarrow> exn + 'a" where
  "py_index xs i = (if i < length xs then Inr (xs ! i) else Inl IndexError)"

text \<open>The loop \<^verbatim>\<open>for i, k in enumerate(input_dict)\<close> of \<^verbatim>\<open>update_figure\<close>.\<close>

fun plot_args_loop :: "string list \<Rightarrow> nat \<Rightarrow> input_value list \<Rightarrow> kwargs \<Rightarrow> exn + kwargs" where
  "plot_args_loop [] i inputs plot_args = Inr plot_args"
| "plot_args_loop (k # ks) i inputs plot_args =
     (case py_index inputs (2 * i) of
        Inl e \<Rightarrow> Inl e
      | Inr r \<Rightarrow>
          (case py_index inputs (2 * i + 1) of
             Inl e \<Rightarrow> Inl e
           | Inr n \<Rightarrow>
               (case linspace_call r n of
                  Inl e \<Rightarrow> Inl e
                | Inr samples \<Rightarrow>
                    plot_args_loop ks (Suc i) inputs (AList.update k samples plot_args))))"

text \<open>
  The inner function \<^verbatim>\<open>update_figure\<close> of \<^verbatim>\<open>generate_range_slider_callback\<close>; its
  free variables are \<^verbatim>\<open>input_dict\<close> (only its keys are used), \<^verbatim>\<open>model\<close> and
  \<^verbatim>\<open>varname\<close>.
\<close>

definition update_figure :: "string list \<Rightarrow> model \<Rightarrow> string \<Rightarrow> input_value list \<Rightarrow> exn + figure" where
  "update_figure input_keys model varname inputs =
     (case plot_args_loop input_keys 0 inputs [] of
        Inl e \<Rightarrow> Inl e
      | Inr plot_args \<Rightarrow>
          (case model_figure model varname IJ True plot_args of
             Inl e \<Rightarrow> Inl e
           | Inr fig \<Rightarrow> Inr (go_Figure fig)))"

definition range_slider_callback :: "string \<Rightarrow> string \<Rightarrow> model \<Rightarrow> kwargs \<Rightarrow> callback" where
  "range_slider_callback graph_id varname model plot_kwargs =
     \<lparr>cb_output = graph_id,
      cb_inputs = concat (map (\<lambda>k. [''rangeslider-'' @ graph_id @ ''-'' @ k,
                                      ''input-'' @ graph_id @ ''-'' @ k])
                              (dict_keys plot_kwargs)),
      cb_update = (\<lambda>inputs. ([], update_figure (dict_keys plot_kwargs) model varname inputs))\<rparr>"

definition generate_range_slider_callback ::
  "dash_app \<Rightarrow> string \<Rightarrow> string \<Rightarrow> model \<Rightarrow> kwargs \<Rightarrow> printed list \<times> dash_app" where
  "generate_range_slider_callback app graph_id varname model plot_kwargs =
     ([Str (''generating calback for '' @ graph_id @ '': '' @ varname)],
      app\<lparr>app_callbacks := app_callbacks app @
        [range_slider_callback graph_id varname model plot_kwargs]\<rparr>)"

section \<open>Building the application: \<^verbatim>\<open>get_gui\<close>\<close>

text \<open>
  The locals of \<^verbatim>\<open>get_gui\<close> that live across iterations of the loop over
  \<^verbatim>\<open>cfg.models.items()\<close>: the variable \<^verbatim>\<open>model\<close> (\<open>None\<close> while it is unbound),
  \<^verbatim>\<open>tabs_children\<close> and the dictionary \<^verbatim>\<open>graphs\<close>.
\<close>

record gui_state =
  st_model :: "model option"
  tabs_children :: "tab list"
  graphs :: "(string \<times> (model \<times> model_params \<times> string)) list"

text \<open>
  Lines 101 to 105: the \<^verbatim>\<open>try\<close> around the instantiation. On success
  \<^verbatim>\<open>model\<close> is rebound. The handler prints two lines and falls through, so
  \<^verbatim>\<open>model\<close> keeps the binding it had.
\<close>

definition instantiate_step :: "model option \<Rightarrow> string \<Rightarrow> model_conf \<Rightarrow> (model option) res" where
  "instantiate_step cur model_name conf =
     (case instantiate conf of
        Inr m \<Rightarrow> ([], Inr (Some m))
      | Inl e \<Rightarrow>
          if is_Exception e
          then ([Str (''could not instantiate '' @ model_name), ExnMsg e], Inr cur)
          else ([], Inl e))"

text \<open>
  Lines 112 to 114, for a null \<^verbatim>\<open>model_conf.plot\<close>: every key whose type is
  \<^verbatim>\<open>UndefinedFunction\<close> gets the defaults of its function. Nothing catches an
  exception of \<^verbatim>\<open>get_defaults\<close> here.
\<close>

fun params_from_defaults :: "(symbol \<times> func) list \<Rightarrow> model_params \<Rightarrow> exn + model_params" where
  "params_from_defaults [] model_params = Inr model_params"
| "params_from_defaults ((var_symbol, func) # rest) model_params =
     (if is_undefined_function var_symbol then
        (case get_defaults func of
           Inl e \<Rightarrow> Inl e
         | Inr d \<Rightarrow> params_from_defaults rest (AList.update (sym_str var_symbol) d model_params))
      else params_from_defaults rest model_params)"

text \<open>
  Lines 116 to 125, for a given \<^verbatim>\<open>model_conf.plot\<close>: a null entry asks for the
  defaults of \<^verbatim>\<open>model[var_name]\<close>, and an \<^verbatim>\<open>Exception\<close> there prints
  \<^verbatim>\<open>model.detail\<close> and the exception and calls \<^verbatim>\<open>sys.exit()\<close>; any other entry
  goes through \<^verbatim>\<open>eval_config\<close>, uncaught.
\<close>

fun params_from_plot ::
  "model \<Rightarrow> (string \<times> var_args option) list \<Rightarrow> model_params \<Rightarrow> model_params res" where
  "params_from_plot model [] model_params = ([], Inr model_params)"
| "params_from_plot model ((var_name, None) # rest) model_params =
     (case (case model_getitem model var_name of Inl e \<Rightarrow> Inl e | Inr f \<Rightarrow> get_defaults f) of
        Inr d \<Rightarrow> params_from_plot model rest (AList.update var_name d model_params)
      | Inl e \<Rightarrow>
          if is_Exception e
          then ([Detail (model_detail model), ExnMsg e], Inl SystemExit)
          else ([], Inl e))"
| "params_from_plot model ((var_name, Some var_args) # rest) model_params =
     (case eval_config var_args of
        Inl e \<Rightarrow> ([], Inl e)
      | Inr d \<Rightarrow> params_from_plot model rest (AList.update var_name d model_params))"

definition resolve_params :: "model \<Rightarrow> model_conf \<Rightarrow> model_params res" where
  "resolve_params model conf =
     (case plot conf of
        None \<Rightarrow> ([], params_from_defaults (model_items model) [])
      | Some entries \<Rightarrow> params_from_plot model entries [])"

text \<open>
  Lines 127 to 146: the checklist, the figure over all keys of \<^verbatim>\<open>model_params\<close>,
  the entry of \<^verbatim>\<open>graphs\<close> and the tab.
\<close>

definition build_tab :: "gui_state \<Rightarrow> model \<Rightarrow> string \<Rightarrow> model_params \<Rightarrow> gui_state res" where
  "build_tab st model model_name model_params =
     (case get_equation_divs model model_name model_params of
        Inl e \<Rightarrow> ([], Inl e)
      | Inr divs \<Rightarrow>
          (let graph_id = ''graph-'' @ model_name in
           bind_res (make_kamodo_subplots model (dict_keys model_params) model_params)
             (\<lambda>fig_subplots.
                ([], Inr (st\<lparr>
                   tabs_children := tabs_children st @
                     [\<lparr>tab_label = model_name, tab_equation_divs = divs,
                       tab_graph_id = graph_id, tab_figure = fig_subplots\<rparr>],
                   graphs := AList.update graph_id (model, model_params, model_name) (graphs st)\<rparr>)))))"

text \<open>
  Lines 107 to 146, run with whatever \<^verbatim>\<open>model\<close> is bound to: reading the unbound
  local raises \<^verbatim>\<open>UnboundLocalError\<close>; an empty model is skipped by
  \<^verbatim>\<open>continue\<close>.
\<close>

definition after_instantiate :: "gui_state \<Rightarrow> string \<Rightarrow> model_conf \<Rightarrow> gui_state res" where
  "after_instantiate st model_name conf =
     (case st_model st of
        None \<Rightarrow> ([], Inl UnboundLocalError)
      | Some model \<Rightarrow>
          if length (model_items model) = 0 then ([], Inr st)
          else bind_res (resolve_params model conf) (build_tab st model model_name))"

text \<open>One iteration of the loop of lines 98 to 146.\<close>

definition loop_body :: "gui_state \<Rightarrow> string \<times> model_conf \<Rightarrow> gui_state res" where
  "loop_body st item =
     (case item of (model_name, conf) \<Rightarrow>
        bind_res ([Str model_name], Inr ())
          (\<lambda>_. bind_res (instantiate_step (st_model st) model_name conf)
             (\<lambda>mv. after_instantiate (st\<lparr>st_model := mv\<rparr>) model_name conf)))"

fun models_loop :: "gui_state \<Rightarrow> (string \<times> model_conf) list \<Rightarrow> gui_state res" where
  "models_loop st [] = ([], Inr st)"
| "models_loop st (item # rest) = bind_res (loop_body st item) (\<lambda>st'. models_loop st' rest)"

text \<open>
  Lines 153 and 154: one call of \<^verbatim>\<open>generate_subplot_callback\<close> per entry of
  \<^verbatim>\<open>graphs\<close>. The call \<^verbatim>\<open>generate_callbacks(app, graphs)\<close> of line 151 is
  commented out in the source, so no range-slider callback is registered.
\<close>

definition register_callbacks ::
  "dash_app \<Rightarrow> (string \<times> (model \<times> model_params \<times> string)) list \<Rightarrow> dash_app" where
  "register_callbacks app gs =
     fold (\<lambda>(graph_id, (model, model_params, model_name)) app.
             generate_subplot_callback app graph_id model model_name model_params) gs app"

record cfg =
  models :: "(string \<times> model_conf) list"

definition init_state :: gui_state where
  "init_state = \<lparr>st_model = None, tabs_children = [], graphs = []\<rparr>"

definition get_gui :: "cfg \<Rightarrow> dash_app res" where
  "get_gui c =
     bind_res (models_loop init_state (models c))
       (\<lambda>st. ([], Inr (register_callbacks
                         \<lparr>app_tabs = tabs_children st, app_callbacks = []\<rparr> (graphs st))))"

section \<open>The Dash runtime\<close>

text \<open>
  What the browser shows: the \<^verbatim>\<open>figure\<close> property of each graph, by graph id.
  When a component property changes, Dash calls every callback that lists the component
  among its inputs, with the current values of all its inputs. A returned figure replaces
  the \<^verbatim>\<open>figure\<close> of the callback's output; when the callback raises
  (\<^verbatim>\<open>PreventUpdate\<close> included) the output keeps its value.
\<close>

type_synonym ui = "string \<Rightarrow> figure option"

definition fire :: "callback \<Rightarrow> (string \<Rightarrow> input_value) \<Rightarrow> ui \<Rightarrow> ui" where
  "fire cb vals u =
     (case snd (cb_update cb (map vals (cb_inputs cb))) of
        Inl e \<Rightarrow> u
      | Inr fig \<Rightarrow> u(cb_output cb \<mapsto> fig))"

definition dispatch :: "callback list \<Rightarrow> string \<Rightarrow> (string \<Rightarrow> input_value) \<Rightarrow> ui \<Rightarrow> ui" where
  "dispatch cbs changed vals u =
     fold (\<lambda>cb u'. if changed \<in> set (cb_inputs cb) then fire cb vals u' else u') cbs u"

definition initial_ui :: "dash_app \<Rightarrow> ui" where
  "initial_ui app = map_of (map (\<lambda>t. (tab_graph_id t, tab_figure t)) (app_tabs app))"

section \<open>An invariant of the dictionary \<^verbatim>\<open>graphs\<close>\<close>

text \<open>
  Keys are distinct (it is a dictionary) and every entry filed under a graph id carries
  the model name the id was formatted from.
\<close>

definition graphs_ok :: "(string \<times> (model \<times> model_params \<times> string)) list \<Rightarrow> bool" where
  "graphs_ok gs \<longleftrightarrow>
     distinct (map fst gs) \<and>
     (\<forall>(graph_id, (model, model_params, model_name)) \<in> set gs. graph_id = ''graph-'' @ model_name)"

section \<open>The binding of \<^verbatim>\<open>model\<close> across iterations\<close>

text \<open>
  The model most recently instantiated with success among the entries processed so far,
  starting from the binding \<open>cur\<close>; \<open>None\<close> when there is none yet.
\<close>

definition last_instantiated :: "model option \<Rightarrow> (string \<times> model_conf) list \<Rightarrow> model option" where
  "last_instantiated cur items =
     fold (\<lambda>(model_name, conf) cur'. case instantiate conf of Inr m \<Rightarrow> Some m | Inl e \<Rightarrow> cur')
       items cur"

section \<open>Concrete inputs\<close>

text \<open>
  A model with two plottable members \<open>f(x)\<close> and \<open>g(x)\<close>. Its \<^verbatim>\<open>figure\<close> plots
  the samples of \<open>x\<close> for \<open>f\<close> and the samples shifted by one for \<open>g\<close>; with
  \<open>f_raises\<close> the evaluation of \<open>f\<close> raises instead.
\<close>

definition example_defaults :: kwargs where
  "example_defaults = [(''x'', [0, 1])]"

definition example_model :: "bool \<Rightarrow> model" where
  "example_model f_raises =
     \<lparr>model_items =
        [(\<lparr>is_undefined_function = False, sym_str = ''f(x)'', type_str = ''f''\<rparr>,
          Func (Inr example_defaults)),
         (\<lparr>is_undefined_function = False, sym_str = ''g(x)'', type_str = ''g''\<rparr>,
          Func (Inr example_defaults))],
      model_getitem =
        (\<lambda>k. if k = ''f'' \<or> k = ''g'' then Inr (Func (Inr example_defaults)) else Inl KeyError),
      model_figure =
        (\<lambda>v ix rt kw.
           if v = ''f'' then
             (if f_raises then Inl (Raised ''f failed'')
              else Inr \<lparr>kf_data = [dict_get kw ''x'' []], kf_chart_type = ''line''\<rparr>)
           else if v = ''g'' then
             Inr \<lparr>kf_data = [map (\<lambda>x. x + 1) (dict_get kw ''x'' [])], kf_chart_type = ''line''\<rparr>
           else Inl KeyError),
      model_to_latex = (\<lambda>k. Inr k),
      model_detail = ''example''\<rparr>"

definition example_params :: model_params where
  "example_params = [(''f'', example_defaults), (''g'', example_defaults)]"

text \<open>The figures \<^verbatim>\<open>example_model False\<close> returns for \<open>f\<close> and \<open>g\<close> over the defaults.\<close>

definition example_eval :: "string \<Rightarrow> kamodo_fig" where
  "example_eval v =
     \<lparr>kf_data = [if v = ''f'' then [0, 1] else [1, 2]], kf_chart_type = ''line''\<rparr>"

text \<open>A configuration entry that instantiates the model and plots both members by default.\<close>

definition example_conf :: "bool \<Rightarrow> model_conf" where
  "example_conf f_raises =
     \<lparr>instantiate = Inr (example_model f_raises),
      plot = Some [(''f'', None), (''g'', None)]\<rparr>"

text \<open>The figure and the tab that \<^verbatim>\<open>get_gui\<close> builds for that entry.\<close>

definition example_figure :: figure where
  "example_figure =
     \<lparr>fig_grid = Some (2, 1), fig_data = [([0, 1], Some (1, 1)), ([1, 2], Some (2, 1))]\<rparr>"

definition example_divs :: "string \<Rightarrow> string list \<Rightarrow> equation_divs" where
  "example_divs name selected =
     \<lparr>checklist_id = ''checklist-'' @ name,
      checklist_options = [''f'', ''g''],
      checklist_value = selected,
      equation_children =
        [\<lparr>katex_id = name @ ''-f(x)-expression'', katex_expression = ''f(x)''\<rparr>,
         \<lparr>katex_id = name @ ''-g(x)-expression'', katex_expression = ''g(x)''\<rparr>]\<rparr>"

definition example_tab :: "string \<Rightarrow> tab" where
  "example_tab name =
     \<lparr>tab_label = name, tab_equation_divs = example_divs name [''f'', ''g''],
      tab_graph_id = ''graph-'' @ name, tab_figure = example_figure\<rparr>"

text \<open>A configuration entry whose instantiation raises.\<close>

definition failing_conf :: model_conf where
  "failing_conf =
     \<lparr>instantiate = Inl (Raised ''no such class''),
      plot = Some [(''f'', None), (''g'', None)]\<rparr>"

text \<open>An entry that plots only \<open>g\<close>, over explicitly given samples.\<close>

definition example_conf_g :: model_conf where
  "example_conf_g =
     \<lparr>instantiate = Inr (example_model False),
      plot = Some [(''g'', Some (VarArgs (Inr [(''x'', [5, 6])])))]\<rparr>"

definition example_params_g :: model_params where
  "example_params_g = [(''g'', [(''x'', [5, 6])])]"

definition example_tab_g :: "string \<Rightarrow> tab" where
  "example_tab_g name =
     \<lparr>tab_label = name, tab_equation_divs = example_divs name [''g''],
      tab_graph_id = ''graph-'' @ name,
      tab_figure = \<lparr>fig_grid = Some (1, 1), fig_data = [([6, 7], Some (1, 1))]\<rparr>\<rparr>"

text \<open>A configuration of two models, and the state the loop of \<^verbatim>\<open>get_gui\<close> ends in.\<close>

definition example_cfg_AB :: cfg where
  "example_cfg_AB = \<lparr>models = [(''A'', example_conf False), (''B'', example_conf_g)]\<rparr>"

definition example_state_AB :: gui_state where
  "example_state_AB =
     \<lparr>st_model = Some (example_model False),
      tabs_children = [example_tab ''A'', example_tab_g ''B''],
      graphs = [(''graph-A'', (example_model False, example_params, ''A'')),
                (''graph-B'', (example_model False, example_params_g, ''B''))]\<rparr>"

text \<open>A configuration whose second model cannot be instantiated, and the reverse order.\<close>

definition example_cfg_A_failing :: cfg where
  "example_cfg_A_failing = \<lparr>models = [(''A'', example_conf False), (''B'', failing_conf)]\<rparr>"

definition example_cfg_failing_A :: cfg where
  "example_cfg_failing_A = \<lparr>models = [(''B'', failing_conf), (''A'', example_conf False)]\<rparr>"

text \<open>
  A model whose only member is a key of type \<^verbatim>\<open>UndefinedFunction\<close> (an Independent
  placeholder in the spec's classification), and a model with no member at all.
\<close>

definition placeholder_model :: model where
  "placeholder_model =
     \<lparr>model_items =
        [(\<lparr>is_undefined_function = True, sym_str = ''x'', type_str = ''UndefinedFunction''\<rparr>,
          Func (Inr []))],
      model_getitem = (\<lambda>k. Inl KeyError),
      model_figure = (\<lambda>v ix rt kw. Inr \<lparr>kf_data = [[]], kf_chart_type = ''line''\<rparr>),
      model_to_latex = (\<lambda>k. Inr k),
      model_detail = ''placeholders''\<rparr>"

definition placeholder_tab :: tab where
  "placeholder_tab =
     \<lparr>tab_label = ''P'',
      tab_equation_divs =
        \<lparr>checklist_id = ''checklist-P'', checklist_options = [], checklist_value = [],
         equation_children = []\<rparr>,
      tab_graph_id = ''graph-P'',
      tab_figure = \<lparr>fig_grid = Some (1, 1), fig_data = [([], Some (1, 1))]\<rparr>\<rparr>"

definition empty_model :: model where
  "empty_model =
     \<lparr>model_items = [],
      model_getitem = (\<lambda>k. Inl KeyError),
      model_figure = (\<lambda>v ix rt kw. Inl KeyError),
      model_to_latex = (\<lambda>k. Inl KeyError),
      model_detail = ''empty''\<rparr>"

definition example_cfg_empty_A :: cfg where
  "example_cfg_empty_A =
     \<lparr>models = [(''E'', \<lparr>instantiate = Inr empty_model, plot = None\<rparr>),
                 (''A'', example_conf False)]\<rparr>"

text \<open>
  A model whose member \<open>f\<close> declares no defaults, configured with a null plot entry for
  \<open>f\<close>, followed by a model that is fine.
\<close>

definition nodefaults_model :: model where
  "nodefaults_model =
     \<lparr>model_items =
        [(\<lparr>is_undefined_function = False, sym_str = ''f(x)'', type_str = ''f''\<rparr>,
          Func (Inl (Raised ''no defaults'')))],
      model_getitem =
        (\<lambda>k. if k = ''f'' then Inr (Func (Inl (Raised ''no defaults''))) else Inl KeyError),
      model_figure = (\<lambda>v ix rt kw. Inr \<lparr>kf_data = [dict_get kw ''x'' []], kf_chart_type = ''line''\<rparr>),
      model_to_latex = (\<lambda>k. Inr k),
      model_detail = ''nodefaults''\<rparr>"

definition nodefaults_conf :: model_conf where
  "nodefaults_conf = \<lparr>instantiate = Inr nodefaults_model, plot = Some [(''f'', None)]\<rparr>"

definition example_cfg_nodefaults :: cfg where
  "example_cfg_nodefaults =
     \<lparr>models = [(''M1'', nodefaults_conf), (''M2'', example_conf False)]\<rparr>"

definition example_cfg_placeholder :: cfg where
  "example_cfg_placeholder =
     \<lparr>models = [(''P'', \<lparr>instantiate = Inr placeholder_model, plot = None\<rparr>)]\<rparr>"

section \<open>Properties of subplot composition\<close>

lemma subplots_loop_ok:
  assumes "fig_grid fig = Some (rows, 1)"
    and "plot_count + length vs \<le> rows"
    and "\<And>v. v \<in> set vs \<Longrightarrow> model_figure model v IJ True (dict_get model_params v []) = Inr (ev v)"
    and "\<And>v. v \<in> set vs \<Longrightarrow> kf_data (ev v) \<noteq> []"
  shows "subplots_loop model model_params plot_count vs fig =
           ([], Inr (fig\<lparr>fig_data := fig_data fig @
               map (\<lambda>(i, v). (hd (kf_data (ev v)), Some (i + 1, 1))) (enumerate plot_count vs)\<rparr>))"
  using assms
proof (induction vs arbitrary: plot_count fig)
  case Nil
  then show ?case by simp
next
  case (Cons v vs)
  obtain tr trs where d: "kf_data (ev v) = tr # trs"
    using Cons.prems(4)[of v] by (cases "kf_data (ev v)") auto
  let ?fig' = "fig\<lparr>fig_data := fig_data fig @ [(tr, Some (plot_count + 1, 1))]\<rparr>"
  have row: "plot_row model model_params plot_count v fig = Inr ?fig'"
    using Cons.prems(1,2) Cons.prems(3)[of v] d
    by (simp add: plot_row_def first_trace_def add_trace_def)
  have "subplots_loop model model_params (Suc plot_count) vs ?fig' =
           ([], Inr (?fig'\<lparr>fig_data := fig_data ?fig' @
               map (\<lambda>(i, v). (hd (kf_data (ev v)), Some (i + 1, 1))) (enumerate (Suc plot_count) vs)\<rparr>))"
    using Cons.prems by (intro Cons.IH) auto
  then show ?case using row d by simp
qed

lemma subplots_loop_fail:
  assumes "f \<in> set vs"
    and "model_figure model f IJ True (dict_get model_params f []) = Inl e"
  shows "\<exists>v\<in>set vs. subplots_loop model model_params plot_count vs fig =
           ([Str (''could not plot '' @ v @ '' with model_params:''), Params model_params],
            Inl PreventUpdate)"
  using assms
proof (induction vs arbitrary: plot_count fig)
  case Nil
  then show ?case by simp
next
  case (Cons v vs)
  show ?case
  proof (cases "plot_row model model_params plot_count v fig")
    case (Inl a)
    then show ?thesis by simp
  next
    case (Inr fig')
    then have "v \<noteq> f" using Cons.prems(2) by (auto simp: plot_row_def)
    then have "f \<in> set vs" using Cons.prems(1) by simp
    from Cons.IH[OF this Cons.prems(2), of "Suc plot_count" fig'] Inr
    show ?thesis by auto
  qed
qed

lemma subplots_loop_append:
  assumes "subplots_loop model model_params k pre fig = ([], Inr fig')"
  shows "subplots_loop model model_params k (pre @ rest) fig =
           subplots_loop model model_params (k + length pre) rest fig'"
  using assms
proof (induction pre arbitrary: k fig)
  case Nil
  then show ?case by simp
next
  case (Cons v pre)
  show ?case
  proof (cases "plot_row model model_params k v fig")
    case (Inl e)
    then show ?thesis using Cons.prems by simp
  next
    case (Inr fig1)
    then have "subplots_loop model model_params (Suc k) pre fig1 = ([], Inr fig')"
      using Cons.prems by simp
    from Cons.IH[OF this] show ?thesis using Inr by simp
  qed
qed

lemma subplots_loop_raises:
  assumes "model_figure model f IJ True (dict_get model_params f []) = Inl e"
  shows "subplots_loop model model_params k (f # post) fig =
           ([Str (''could not plot '' @ f @ '' with model_params:''), Params model_params],
            Inl PreventUpdate)"
proof -
  have "plot_row model model_params k f fig = Inl e"
    using assms by (simp add: plot_row_def)
  then show ?thesis by simp
qed

lemma make_kamodo_subplots_first_failure:
  assumes "\<forall>v\<in>set pre. \<exists>kf. model_figure model v IJ True (dict_get model_params v []) = Inr kf \<and>
             kf_data kf \<noteq> []"
    and "model_figure model f IJ True (dict_get model_params f []) = Inl e"
  shows "make_kamodo_subplots model (pre @ f # post) model_params =
           ([Str (''could not plot '' @ f @ '' with model_params:''), Params model_params],
            Inl PreventUpdate)"
proof -
  let ?n = "length (pre @ f # post)"
  let ?fig = "\<lparr>fig_grid = Some (?n, 1), fig_data = []\<rparr>"
  from assms(1) obtain ev where
    ev: "\<And>v. v \<in> set pre \<Longrightarrow> model_figure model v IJ True (dict_get model_params v []) = Inr (ev v)"
    and ne: "\<And>v. v \<in> set pre \<Longrightarrow> kf_data (ev v) \<noteq> []"
    by metis
  have m: "make_subplots ?n 1 = Inr ?fig" by (simp add: make_subplots_def)
  have "subplots_loop model model_params 0 pre ?fig =
      ([], Inr (?fig\<lparr>fig_data := fig_data ?fig @
               map (\<lambda>(i, v). (hd (kf_data (ev v)), Some (i + 1, 1))) (enumerate 0 pre)\<rparr>))"
    by (rule subplots_loop_ok[where rows = ?n]) (use ev ne in auto)
  from subplots_loop_append[OF this, of "f # post"]
  have "subplots_loop model model_params 0 (pre @ f # post) ?fig =
          ([Str (''could not plot '' @ f @ '' with model_params:''), Params model_params],
            Inl PreventUpdate)"
    unfolding subplots_loop_raises[OF assms(2)] .
  then show ?thesis unfolding make_kamodo_subplots_def m by simp
qed

lemma make_kamodo_subplots_some_failure:
  assumes "f \<in> set var_names"
    and "model_figure model f IJ True (dict_get model_params f []) = Inl e"
  shows "snd (make_kamodo_subplots model var_names model_params) = Inl PreventUpdate"
proof -
  let ?fig = "\<lparr>fig_grid = Some (length var_names, 1), fig_data = []\<rparr>"
  have "var_names \<noteq> []" using assms(1) by auto
  then have m: "make_subplots (length var_names) 1 = Inr ?fig" by (simp add: make_subplots_def)
  from subplots_loop_fail[OF assms, of 0 ?fig]
  have "snd (subplots_loop model model_params 0 var_names ?fig) = Inl PreventUpdate" by auto
  then show ?thesis unfolding make_kamodo_subplots_def m by simp
qed

section \<open>Registered callbacks and their dispatch\<close>

lemma update_subplot_empty: "update_subplot model model_params [] = ([], Inl PreventUpdate)"
  by (simp add: update_subplot_def)

lemma app_callbacks_register:
  "app_callbacks (register_callbacks app gs) =
     app_callbacks app @
       map (\<lambda>(graph_id, (model, model_params, model_name)).
              subplot_callback graph_id model model_name model_params) gs"
  unfolding register_callbacks_def
  by (induction gs arbitrary: app) (auto simp: generate_subplot_callback_def)

lemma app_tabs_register: "app_tabs (register_callbacks app gs) = app_tabs app"
  unfolding register_callbacks_def
  by (induction gs arbitrary: app) (auto simp: generate_subplot_callback_def)

lemma dispatch_Nil: "dispatch [] changed vals u = u"
  by (simp add: dispatch_def)

lemma dispatch_Cons:
  "dispatch (cb # cbs) changed vals u =
     dispatch cbs changed vals (if changed \<in> set (cb_inputs cb) then fire cb vals u else u)"
  by (simp add: dispatch_def)

lemma dispatch_append:
  "dispatch (cbs @ cbs') changed vals u = dispatch cbs' changed vals (dispatch cbs changed vals u)"
  by (simp add: dispatch_def)

lemma fire_subplot_callback:
  "fire (subplot_callback graph_id model model_name model_params) vals u =
     (case vals (''checklist-'' @ model_name) of
        Checked var_names \<Rightarrow>
          (case snd (update_subplot model model_params var_names) of
             Inl e \<Rightarrow> u
           | Inr fig \<Rightarrow> u(graph_id \<mapsto> fig))
      | _ \<Rightarrow> u)"
  by (simp add: fire_def subplot_callback_def split: input_value.splits sum.splits)

lemma inputs_subplot_callback:
  "changed \<in> set (cb_inputs (subplot_callback graph_id model model_name model_params))
     \<longleftrightarrow> changed = ''checklist-'' @ model_name"
  by (simp add: subplot_callback_def)

lemma dispatch_subplot_empty:
  assumes "vals changed = Checked []"
  shows "dispatch (map (\<lambda>(graph_id, (model, model_params, model_name)).
              subplot_callback graph_id model model_name model_params) gs) changed vals u = u"
proof (induction gs arbitrary: u)
  case Nil
  show ?case by (simp add: dispatch_Nil)
next
  case (Cons g gs)
  obtain graph_id model model_params model_name where g: "g = (graph_id, (model, model_params, model_name))"
    by (cases g) auto
  have "changed = ''checklist-'' @ model_name \<Longrightarrow>
          fire (subplot_callback graph_id model model_name model_params) vals u = u"
    using assms unfolding fire_subplot_callback
    by (auto simp: update_subplot_empty)
  then show ?case using Cons.IH by (simp add: dispatch_Cons g inputs_subplot_callback)
qed

lemma dispatch_subplot_other:
  assumes "\<And>graph_id model model_params model_name.
            (graph_id, (model, model_params, model_name)) \<in> set gs \<Longrightarrow> model_name \<noteq> name"
  shows "dispatch (map (\<lambda>(graph_id, (model, model_params, model_name)).
              subplot_callback graph_id model model_name model_params) gs) (''checklist-'' @ name) vals u = u"
  using assms
proof (induction gs arbitrary: u)
  case Nil
  show ?case by (simp add: dispatch_Nil)
next
  case (Cons g gs)
  obtain graph_id model model_params model_name where g: "g = (graph_id, (model, model_params, model_name))"
    by (cases g) auto
  have "model_name \<noteq> name" using Cons.prems[of graph_id model model_params model_name] g by simp
  moreover have "dispatch (map (\<lambda>(graph_id, (model, model_params, model_name)).
              subplot_callback graph_id model model_name model_params) gs) (''checklist-'' @ name) vals u = u"
    by (rule Cons.IH) (use Cons.prems in auto)
  ultimately show ?case by (simp add: dispatch_Cons g inputs_subplot_callback)
qed


section \<open>The loop over the configured models\<close>

lemma bind_res_Inr:
  "bind_res r f = (out, Inr y) \<longleftrightarrow>
     (\<exists>o1 x o2. r = (o1, Inr x) \<and> f x = (o2, Inr y) \<and> out = o1 @ o2)"
  by (cases r; cases "snd r") (auto simp: bind_res_def split: prod.splits sum.splits)

lemma build_tab_Inr:
  assumes "build_tab st model model_name model_params = (out, Inr st')"
  shows "graphs st' = AList.update (''graph-'' @ model_name) (model, model_params, model_name) (graphs st)"
    and "st_model st' = st_model st"
    and "\<exists>t. tabs_children st' = tabs_children st @ [t] \<and> tab_label t = model_name \<and>
             tab_graph_id t = ''graph-'' @ model_name"
proof -
  from assms obtain divs fig where
    "st' = st\<lparr>tabs_children := tabs_children st @
                     [\<lparr>tab_label = model_name, tab_equation_divs = divs,
                       tab_graph_id = ''graph-'' @ model_name, tab_figure = fig\<rparr>],
                   graphs := AList.update (''graph-'' @ model_name) (model, model_params, model_name) (graphs st)\<rparr>"
    unfolding build_tab_def Let_def
    by (cases "get_equation_divs model model_name model_params")
       (auto simp: bind_res_Inr)
  then show "graphs st' = AList.update (''graph-'' @ model_name) (model, model_params, model_name) (graphs st)"
    and "st_model st' = st_model st"
    and "\<exists>t. tabs_children st' = tabs_children st @ [t] \<and> tab_label t = model_name \<and>
             tab_graph_id t = ''graph-'' @ model_name"
    by simp_all
qed


lemma after_instantiate_Inr:
  assumes "after_instantiate st model_name conf = (out, Inr st')"
  shows "st' = st \<or>
         (\<exists>model model_params o1 o2. st_model st = Some model \<and> model_items model \<noteq> [] \<and>
            resolve_params model conf = (o1, Inr model_params) \<and>
            build_tab st model model_name model_params = (o2, Inr st'))"
proof (cases "st_model st")
  case None
  then show ?thesis using assms by (simp add: after_instantiate_def)
next
  case (Some model)
  show ?thesis
  proof (cases "model_items model = []")
    case True
    then show ?thesis using assms Some by (simp add: after_instantiate_def)
  next
    case False
    then have "bind_res (resolve_params model conf) (build_tab st model model_name) = (out, Inr st')"
      using assms Some by (simp add: after_instantiate_def)
    then show ?thesis using Some False unfolding bind_res_Inr by blast
  qed
qed

lemma loop_body_Inr:
  assumes "loop_body st (model_name, conf) = (out, Inr st')"
  shows "\<exists>mv o1 o2. instantiate_step (st_model st) model_name conf = (o1, Inr mv) \<and>
           after_instantiate (st\<lparr>st_model := mv\<rparr>) model_name conf = (o2, Inr st')"
proof -
  from assms have "bind_res ([Str model_name], Inr ())
          (\<lambda>_. bind_res (instantiate_step (st_model st) model_name conf)
             (\<lambda>mv. after_instantiate (st\<lparr>st_model := mv\<rparr>) model_name conf)) = (out, Inr st')"
    by (simp add: loop_body_def)
  then obtain o2 where "bind_res (instantiate_step (st_model st) model_name conf)
             (\<lambda>mv. after_instantiate (st\<lparr>st_model := mv\<rparr>) model_name conf) = (o2, Inr st')"
    unfolding bind_res_Inr[where r = "([Str model_name], Inr ())"] by blast
  then show ?thesis unfolding bind_res_Inr by blast
qed

lemma set_update_subset: "set (AList.update k v al) \<subseteq> insert (k, v) (set al)"
  by (induction al) auto

lemma graphs_ok_update:
  assumes "graphs_ok gs" and "k = ''graph-'' @ n"
  shows "graphs_ok (AList.update k (m, ps, n) gs)"
proof -
  have "distinct (map fst (AList.update k (m, ps, n) gs))"
    using assms(1) by (simp add: graphs_ok_def distinct_update)
  moreover have "\<forall>(graph_id, (model, model_params, model_name)) \<in> set (AList.update k (m, ps, n) gs).
      graph_id = ''graph-'' @ model_name"
    using assms set_update_subset[of k "(m, ps, n)" gs] unfolding graphs_ok_def by blast
  ultimately show ?thesis unfolding graphs_ok_def by blast
qed

lemma loop_body_graphs_ok:
  assumes "loop_body st item = (out, Inr st')" "graphs_ok (graphs st)"
  shows "graphs_ok (graphs st')"
proof -
  obtain model_name conf where item: "item = (model_name, conf)" by (cases item)
  from loop_body_Inr[OF assms(1)[unfolded item]] obtain mv o2 where
    a: "after_instantiate (st\<lparr>st_model := mv\<rparr>) model_name conf = (o2, Inr st')" by blast
  from after_instantiate_Inr[OF a] show ?thesis
  proof
    assume "st' = st\<lparr>st_model := mv\<rparr>"
    then show ?thesis using assms(2) by simp
  next
    assume "\<exists>model model_params o1 o2.
       st_model (st\<lparr>st_model := mv\<rparr>) = Some model \<and> model_items model \<noteq> [] \<and>
       resolve_params model conf = (o1, Inr model_params) \<and>
       build_tab (st\<lparr>st_model := mv\<rparr>) model model_name model_params = (o2, Inr st')"
    then obtain model model_params o3 where
      "build_tab (st\<lparr>st_model := mv\<rparr>) model model_name model_params = (o3, Inr st')" by blast
    from build_tab_Inr(1)[OF this]
    have "graphs st' = AList.update (''graph-'' @ model_name) (model, model_params, model_name) (graphs st)"
      by simp
    then show ?thesis using graphs_ok_update[OF assms(2) refl] by simp
  qed
qed

lemma models_loop_Cons_Inr:
  assumes "models_loop st (item # items) = (out, Inr st')"
  shows "\<exists>o1 st1 o2. loop_body st item = (o1, Inr st1) \<and> models_loop st1 items = (o2, Inr st')
           \<and> out = o1 @ o2"
  using assms unfolding models_loop.simps bind_res_Inr by blast

lemma models_loop_graphs_ok:
  assumes "models_loop st items = (out, Inr st')" "graphs_ok (graphs st)"
  shows "graphs_ok (graphs st')"
  using assms
proof (induction items arbitrary: st out)
  case Nil
  then show ?case by simp
next
  case (Cons item items)
  from models_loop_Cons_Inr[OF Cons.prems(1)] obtain o1 st1 o2 where
    "loop_body st item = (o1, Inr st1)" "models_loop st1 items = (o2, Inr st')"
    by blast
  then show ?case using Cons.IH loop_body_graphs_ok Cons.prems(2) by blast
qed

lemma distinct_map_inner: "distinct (map (\<lambda>x. h (g x)) xs) \<Longrightarrow> distinct (map g xs)"
  by (induction xs) auto

lemma graphs_ok_names_distinct:
  assumes "graphs_ok gs"
  shows "distinct (map (\<lambda>(graph_id, (model, model_params, model_name)). model_name) gs)"
proof -
  let ?name = "\<lambda>(graph_id :: string, (model :: model, model_params :: model_params, model_name :: string)). model_name"
  have "\<And>g. g \<in> set gs \<Longrightarrow> fst g = ''graph-'' @ ?name g"
    using assms unfolding graphs_ok_def by fastforce
  then have m: "map fst gs = map (\<lambda>g. ''graph-'' @ ?name g) gs"
    by (intro map_cong[OF refl])
  have "distinct (map fst gs)" using assms by (simp add: graphs_ok_def)
  then have "distinct (map (\<lambda>g. ''graph-'' @ ?name g) gs)" unfolding m .
  then show ?thesis by (rule distinct_map_inner)
qed

lemma dispatch_subplot_unique:
  assumes "distinct (map (\<lambda>(graph_id, (model, model_params, model_name)). model_name) gs)"
    and "(gA, (mA, psA, nA)) \<in> set gs"
  shows "dispatch (map (\<lambda>(graph_id, (model, model_params, model_name)).
              subplot_callback graph_id model model_name model_params) gs) (''checklist-'' @ nA) vals u
         = fire (subplot_callback gA mA nA psA) vals u"
proof -
  let ?name = "\<lambda>(graph_id :: string, (model :: model, model_params :: model_params, model_name :: string)). model_name"
  let ?cb = "\<lambda>(graph_id, (model, model_params, model_name)).
              subplot_callback graph_id model model_name model_params"
  from assms(2) obtain pre post where gs: "gs = pre @ (gA, (mA, psA, nA)) # post"
    by (auto simp: in_set_conv_decomp)
  have d: "distinct (map ?name pre @ nA # map ?name post)"
    using assms(1) unfolding gs by simp
  have npre: "nA \<notin> set (map ?name pre)" and npost: "nA \<notin> set (map ?name post)"
    using d by simp_all
  have pre: "model_name \<noteq> nA"
    if "(graph_id, (model, model_params, model_name)) \<in> set pre"
    for graph_id model model_params model_name
  proof
    assume "model_name = nA"
    then have "nA = ?name (graph_id, (model, model_params, model_name))" by simp
    then have "nA \<in> ?name ` set pre" using that by (rule image_eqI)
    then show False using npre by simp
  qed
  have post: "model_name \<noteq> nA"
    if "(graph_id, (model, model_params, model_name)) \<in> set post"
    for graph_id model model_params model_name
  proof
    assume "model_name = nA"
    then have "nA = ?name (graph_id, (model, model_params, model_name))" by simp
    then have "nA \<in> ?name ` set post" using that by (rule image_eqI)
    then show False using npost by simp
  qed
  define c where "c = ''checklist-'' @ nA"
  have h1: "dispatch (map ?cb pre) c vals w = w" for w
    unfolding c_def by (rule dispatch_subplot_other[OF pre])
  have h2: "dispatch (map ?cb post) c vals w = w" for w
    unfolding c_def by (rule dispatch_subplot_other[OF post])
  have h3: "c \<in> set (cb_inputs (subplot_callback gA mA nA psA))"
    unfolding c_def inputs_subplot_callback ..
  have "dispatch (map ?cb gs) c vals u = fire (subplot_callback gA mA nA psA) vals u"
    unfolding gs by (simp add: dispatch_append dispatch_Cons h1 h2 h3)
  then show ?thesis unfolding c_def .
qed

lemma bind_res_Inr_eq: "bind_res (o1, Inr x) f = (o1 @ fst (f x), snd (f x))"
  by (simp add: bind_res_def split: prod.splits)

lemma bind_res_Inl_eq: "bind_res (o1, Inl e) f = (o1, Inl e)"
  by (simp add: bind_res_def)

lemma get_gui_Inr:
  assumes "get_gui c = (out, Inr app)"
  shows "\<exists>st. models_loop init_state (models c) = (out, Inr st) \<and>
           app = register_callbacks \<lparr>app_tabs = tabs_children st, app_callbacks = []\<rparr> (graphs st)"
  using assms unfolding get_gui_def bind_res_Inr by auto

lemma get_gui_callbacks:
  assumes "models_loop init_state (models c) = (out, Inr st)"
  shows "get_gui c = (out, Inr (register_callbacks \<lparr>app_tabs = tabs_children st, app_callbacks = []\<rparr> (graphs st)))"
  unfolding get_gui_def assms by (simp add: bind_res_Inr_eq)

lemma graphs_ok_init: "graphs_ok (graphs init_state)"
  by (simp add: graphs_ok_def init_state_def)

lemma instantiate_step_ok:
  "instantiate conf = Inr m \<Longrightarrow> instantiate_step cur model_name conf = ([], Inr (Some m))"
  by (simp add: instantiate_step_def)

lemma instantiate_step_caught:
  "instantiate conf = Inl e \<Longrightarrow> is_Exception e \<Longrightarrow>
     instantiate_step cur model_name conf =
       ([Str (''could not instantiate '' @ model_name), ExnMsg e], Inr cur)"
  by (simp add: instantiate_step_def)

lemma loop_body_ok:
  assumes "instantiate conf = Inr m"
  shows "loop_body st (model_name, conf) =
           bind_res ([Str model_name], Inr ())
             (\<lambda>_. after_instantiate (st\<lparr>st_model := Some m\<rparr>) model_name conf)"
  unfolding loop_body_def prod.case instantiate_step_ok[OF assms]
  by (simp add: bind_res_Inr_eq)

lemma loop_body_caught:
  assumes "instantiate conf = Inl e" and "is_Exception e"
  shows "loop_body st (model_name, conf) =
           bind_res ([Str model_name, Str (''could not instantiate '' @ model_name), ExnMsg e], Inr ())
             (\<lambda>_. after_instantiate st model_name conf)"
  unfolding loop_body_def prod.case instantiate_step_caught[OF assms]
  by (simp add: bind_res_Inr_eq)

lemma loop_body_st_model:
  assumes "loop_body st (model_name, conf) = (out, Inr st')"
  shows "st_model st' = (case instantiate conf of Inr m \<Rightarrow> Some m | Inl e \<Rightarrow> st_model st)"
proof -
  from loop_body_Inr[OF assms] obtain mv o1 o2 where
    i: "instantiate_step (st_model st) model_name conf = (o1, Inr mv)" and
    a: "after_instantiate (st\<lparr>st_model := mv\<rparr>) model_name conf = (o2, Inr st')" by blast
  have "st_model st' = mv"
    using after_instantiate_Inr[OF a] by (auto dest: build_tab_Inr(2))
  moreover have "mv = (case instantiate conf of Inr m \<Rightarrow> Some m | Inl e \<Rightarrow> st_model st)"
    using i by (auto simp: instantiate_step_def split: sum.splits if_splits)
  ultimately show ?thesis by simp
qed

lemma models_loop_st_model:
  assumes "models_loop st items = (out, Inr st')"
  shows "st_model st' = last_instantiated (st_model st) items"
  using assms
proof (induction items arbitrary: st out)
  case Nil
  then show ?case by (simp add: last_instantiated_def)
next
  case (Cons item items)
  obtain model_name conf where item: "item = (model_name, conf)" by (cases item)
  from models_loop_Cons_Inr[OF Cons.prems] obtain o1 st1 o2 where
    b: "loop_body st item = (o1, Inr st1)" and l: "models_loop st1 items = (o2, Inr st')"
    by blast
  have "st_model st' = last_instantiated (st_model st1) items" by (rule Cons.IH[OF l])
  then show ?case
    using loop_body_st_model[OF b[unfolded item]] by (simp add: last_instantiated_def item)
qed

lemma models_loop_append:
  "models_loop st (xs @ ys) = bind_res (models_loop st xs) (\<lambda>st'. models_loop st' ys)"
proof (induction xs arbitrary: st)
  case Nil
  show ?case by (simp add: bind_res_def split: prod.splits)
next
  case (Cons x xs)
  show ?case
    by (cases "loop_body st x"; cases "snd (loop_body st x)")
       (auto simp: Cons.IH bind_res_def split: prod.splits sum.splits)
qed

lemma get_gui_raises:
  assumes "models_loop init_state (models c) = (out, Inl e)"
  shows "get_gui c = (out, Inl e)"
  unfolding get_gui_def assms by (simp add: bind_res_def)

lemma after_instantiate_Some:
  "st_model st = Some model \<Longrightarrow>
   after_instantiate st model_name conf =
     (if length (model_items model) = 0 then ([], Inr st)
      else bind_res (resolve_params model conf) (build_tab st model model_name))"
  by (simp add: after_instantiate_def)

lemma after_instantiate_None:
  "st_model st = None \<Longrightarrow> after_instantiate st model_name conf = ([], Inl UnboundLocalError)"
  by (simp add: after_instantiate_def)

lemma models_loop_prefix_raises:
  assumes "models_loop st pre = (out, Inr st1)"
    and "loop_body st1 item = (o1, Inl e)"
  shows "models_loop st (pre @ item # post) = (out @ o1, Inl e)"
  unfolding models_loop_append assms(1) bind_res_Inr_eq models_loop.simps assms(2) bind_res_Inl_eq
  by simp

lemma loop_body_empty_model:
  assumes "instantiate conf = Inr m" and "model_items m = []"
  shows "loop_body st (model_name, conf) = ([Str model_name], Inr (st\<lparr>st_model := Some m\<rparr>))"
  unfolding loop_body_ok[OF assms(1)]
  using assms(2) by (simp add: after_instantiate_def bind_res_Inr_eq)

lemma loop_body_tabs:
  assumes "loop_body st (model_name, conf) = (out, Inr st')"
  shows "tabs_children st' = tabs_children st \<or>
         (\<exists>t. tabs_children st' = tabs_children st @ [t] \<and> tab_label t = model_name \<and>
              (\<forall>m. instantiate conf = Inr m \<longrightarrow> model_items m \<noteq> []))"
proof -
  from loop_body_Inr[OF assms] obtain mv o1 o2 where
    i: "instantiate_step (st_model st) model_name conf = (o1, Inr mv)" and
    a: "after_instantiate (st\<lparr>st_model := mv\<rparr>) model_name conf = (o2, Inr st')" by blast
  from after_instantiate_Inr[OF a] show ?thesis
  proof
    assume "st' = st\<lparr>st_model := mv\<rparr>"
    then show ?thesis by simp
  next
    assume "\<exists>model model_params o1 o2.
       st_model (st\<lparr>st_model := mv\<rparr>) = Some model \<and> model_items model \<noteq> [] \<and>
       resolve_params model conf = (o1, Inr model_params) \<and>
       build_tab (st\<lparr>st_model := mv\<rparr>) model model_name model_params = (o2, Inr st')"
    then obtain model model_params o3 where
      mv: "mv = Some model" and ne: "model_items model \<noteq> []" and
      b: "build_tab (st\<lparr>st_model := mv\<rparr>) model model_name model_params = (o3, Inr st')"
      by auto
    from build_tab_Inr(3)[OF b] obtain t where
      t: "tabs_children st' = tabs_children st @ [t]" "tab_label t = model_name" by auto
    have "\<forall>m. instantiate conf = Inr m \<longrightarrow> model_items m \<noteq> []"
    proof (intro allI impI)
      fix m assume "instantiate conf = Inr m"
      then have "mv = Some m" using i by (simp add: instantiate_step_def)
      then show "model_items m \<noteq> []" using mv ne by simp
    qed
    with t show ?thesis by blast
  qed
qed

lemma models_loop_tabs:
  assumes "models_loop st items = (out, Inr st')"
    and "t \<in> set (tabs_children st')"
  shows "t \<in> set (tabs_children st) \<or>
         (\<exists>conf. (tab_label t, conf) \<in> set items \<and>
                 (\<forall>m. instantiate conf = Inr m \<longrightarrow> model_items m \<noteq> []))"
  using assms
proof (induction items arbitrary: st out)
  case Nil
  then show ?case by simp
next
  case (Cons item items)
  obtain model_name conf where item: "item = (model_name, conf)" by (cases item)
  from models_loop_Cons_Inr[OF Cons.prems(1)] obtain o1 st1 o2 where
    b: "loop_body st item = (o1, Inr st1)" and l: "models_loop st1 items = (o2, Inr st')"
    by blast
  from Cons.IH[OF l Cons.prems(2)] show ?case
  proof
    assume t1: "t \<in> set (tabs_children st1)"
    from loop_body_tabs[OF b[unfolded item]] show ?thesis
    proof
      assume "tabs_children st1 = tabs_children st"
      then show ?thesis using t1 by simp
    next
      assume "\<exists>t'. tabs_children st1 = tabs_children st @ [t'] \<and> tab_label t' = model_name \<and>
              (\<forall>m. instantiate conf = Inr m \<longrightarrow> model_items m \<noteq> [])"
      then obtain t' where t': "tabs_children st1 = tabs_children st @ [t']"
        "tab_label t' = model_name" "\<forall>m. instantiate conf = Inr m \<longrightarrow> model_items m \<noteq> []"
        by blast
      show ?thesis
      proof (cases "t = t'")
        case True
        then have "(tab_label t, conf) \<in> set (item # items)" using t'(2) item by simp
        then show ?thesis using t'(3) by blast
      next
        case False
        then show ?thesis using t1 t'(1) by simp
      qed
    qed
  next
    assume "\<exists>conf. (tab_label t, conf) \<in> set items \<and>
                 (\<forall>m. instantiate conf = Inr m \<longrightarrow> model_items m \<noteq> [])"
    then show ?thesis by auto
  qed
qed

lemma params_from_plot_append:
  assumes "params_from_plot model es mp0 = (o1, Inr mp)"
  shows "params_from_plot model (es @ rest) mp0 =
           (o1 @ fst (params_from_plot model rest mp), snd (params_from_plot model rest mp))"
  using assms
proof (induction model es mp0 rule: params_from_plot.induct)
  case (1 model model_params)
  then show ?case by simp
next
  case (2 model var_name rest' model_params)
  show ?case
  proof (cases "case model_getitem model var_name of Inl e \<Rightarrow> Inl e | Inr f \<Rightarrow> get_defaults f")
    case (Inl e)
    then show ?thesis using "2.prems" by (simp split: if_splits)
  next
    case (Inr d)
    then show ?thesis using "2.prems" "2.IH"[OF Inr] by simp
  qed
next
  case (3 model var_name var_args rest' model_params)
  show ?case
  proof (cases "eval_config var_args")
    case (Inl e)
    then show ?thesis using "3.prems" by simp
  next
    case (Inr d)
    then show ?thesis using "3.prems" "3.IH"[OF Inr] by simp
  qed
qed

lemma params_from_plot_null_fails:
  assumes "(case model_getitem model var_name of Inl e \<Rightarrow> Inl e | Inr f \<Rightarrow> get_defaults f) = Inl e"
    and "is_Exception e"
  shows "params_from_plot model ((var_name, None) # rest) mp =
           ([Detail (model_detail model), ExnMsg e], Inl SystemExit)"
  using assms by simp

section \<open>Sample sequences\<close>

lemma linspace_points_length: "length (linspace_points lo hi count) = count"
  by (simp add: linspace_points_def)

lemma linspace_points_nth:
  assumes "i < count"
  shows "linspace_points lo hi count ! i = lo + real i * ((hi - lo) / real (count - 1))"
  using assms by (cases "count = 1") (simp_all add: linspace_points_def)

lemma linspace_points_ends:
  assumes "2 \<le> count"
  shows "hd (linspace_points lo hi count) = lo" and "last (linspace_points lo hi count) = hi"
proof -
  have ne: "linspace_points lo hi count \<noteq> []"
    using assms linspace_points_length[of lo hi count] by auto
  have "hd (linspace_points lo hi count) = linspace_points lo hi count ! 0"
    using ne by (simp add: hd_conv_nth)
  also have "\<dots> = lo" using assms by (simp add: linspace_points_nth)
  finally show "hd (linspace_points lo hi count) = lo" .
  have "last (linspace_points lo hi count) = linspace_points lo hi count ! (count - 1)"
    using ne by (simp add: last_conv_nth linspace_points_length)
  also have "\<dots> = lo + real (count - 1) * ((hi - lo) / real (count - 1))"
    using assms by (simp add: linspace_points_nth)
  also have "\<dots> = hi" using assms by simp
  finally show "last (linspace_points lo hi count) = hi" .
qed

lemma linspace_points_step:
  assumes "Suc i < count"
  shows "linspace_points lo hi count ! Suc i - linspace_points lo hi count ! i =
           (hi - lo) / real (count - 1)"
proof -
  define d where "d = (hi - lo) / real (count - 1)"
  have "i < count" using assms by simp
  then have a: "linspace_points lo hi count ! i = lo + real i * d"
    unfolding d_def by (rule linspace_points_nth)
  have b: "linspace_points lo hi count ! Suc i = lo + real (Suc i) * d"
    unfolding d_def using assms by (rule linspace_points_nth)
  show ?thesis unfolding a b d_def[symmetric] by (simp add: algebra_simps)
qed

lemma linspace_points_example: "linspace_points 0 10 5 = [0, 5/2, 5, 15/2, 10]"
  by (simp add: linspace_points_def upt_rec)

section \<open>The range-slider callback\<close>




section \<open>Evaluation of the concrete inputs\<close>

lemma example_subplots:
  "make_kamodo_subplots (example_model False) [''f'', ''g''] example_params = ([], Inr example_figure)"
  by (simp add: make_kamodo_subplots_def make_subplots_def plot_row_def example_model_def
      example_params_def example_defaults_def dict_get_def first_trace_def add_trace_def
      example_figure_def)

lemma example_divs_eval:
  "get_equation_divs (example_model False) name example_params = Inr (example_divs name [''f'', ''g''])"
  by (simp add: get_equation_divs_def example_model_def example_params_def dict_keys_def
      example_divs_def Let_def)

lemma example_resolve:
  "resolve_params (example_model False) (example_conf False) = ([], Inr example_params)"
  by (simp add: resolve_params_def example_conf_def example_model_def example_params_def)

lemma example_build_tab:
  "build_tab st (example_model False) name example_params =
     ([], Inr (st\<lparr>tabs_children := tabs_children st @ [example_tab name],
              graphs := AList.update (''graph-'' @ name) (example_model False, example_params, name)
                          (graphs st)\<rparr>))"
proof -
  have k: "dict_keys example_params = [''f'', ''g'']" by (simp add: dict_keys_def example_params_def)
  show ?thesis
    unfolding build_tab_def example_divs_eval k example_subplots Let_def example_tab_def
    by (simp add: bind_res_def)
qed

lemma example_loop_body:
  "loop_body st (name, example_conf False) =
     ([Str name],
      Inr (st\<lparr>st_model := Some (example_model False),
              tabs_children := tabs_children st @ [example_tab name],
              graphs := AList.update (''graph-'' @ name) (example_model False, example_params, name)
                          (graphs st)\<rparr>))"
proof -
  have i: "instantiate_step (st_model st) name (example_conf False) = ([], Inr (Some (example_model False)))"
    by (simp add: instantiate_step_def example_conf_def)
  have n: "model_items (example_model False) \<noteq> []" by (simp add: example_model_def)
  have a: "after_instantiate (st\<lparr>st_model := Some (example_model False)\<rparr>) name (example_conf False) =
     ([], Inr (st\<lparr>st_model := Some (example_model False),
              tabs_children := tabs_children st @ [example_tab name],
              graphs := AList.update (''graph-'' @ name) (example_model False, example_params, name)
                          (graphs st)\<rparr>))"
    using n by (simp add: after_instantiate_def example_resolve bind_res_def example_build_tab)
  show ?thesis
    unfolding loop_body_def prod.case i
    by (simp add: bind_res_def a)
qed

lemma example_resolve_g:
  "resolve_params (example_model False) example_conf_g = ([], Inr example_params_g)"
  by (simp add: resolve_params_def example_conf_g_def example_params_g_def)

lemma example_subplots_g:
  "make_kamodo_subplots (example_model False) [''g''] example_params_g =
     ([], Inr \<lparr>fig_grid = Some (1, 1), fig_data = [([6, 7], Some (1, 1))]\<rparr>)"
  by (simp add: make_kamodo_subplots_def make_subplots_def plot_row_def example_model_def
      example_params_g_def dict_get_def first_trace_def add_trace_def)

lemma example_divs_eval_g:
  "get_equation_divs (example_model False) name example_params_g = Inr (example_divs name [''g''])"
  by (simp add: get_equation_divs_def example_model_def example_params_g_def dict_keys_def
      example_divs_def Let_def)

lemma example_build_tab_g:
  "build_tab st (example_model False) name example_params_g =
     ([], Inr (st\<lparr>tabs_children := tabs_children st @ [example_tab_g name],
              graphs := AList.update (''graph-'' @ name) (example_model False, example_params_g, name)
                          (graphs st)\<rparr>))"
proof -
  have k: "dict_keys example_params_g = [''g'']" by (simp add: dict_keys_def example_params_g_def)
  show ?thesis
    unfolding build_tab_def example_divs_eval_g k example_subplots_g Let_def example_tab_g_def
    by (simp add: bind_res_def)
qed

lemma example_loop_body_g:
  "loop_body st (name, example_conf_g) =
     ([Str name],
      Inr (st\<lparr>st_model := Some (example_model False),
              tabs_children := tabs_children st @ [example_tab_g name],
              graphs := AList.update (''graph-'' @ name) (example_model False, example_params_g, name)
                          (graphs st)\<rparr>))"
proof -
  have i: "instantiate_step (st_model st) name example_conf_g = ([], Inr (Some (example_model False)))"
    by (simp add: instantiate_step_def example_conf_g_def)
  have n: "model_items (example_model False) \<noteq> []" by (simp add: example_model_def)
  have a: "after_instantiate (st\<lparr>st_model := Some (example_model False)\<rparr>) name example_conf_g =
     ([], Inr (st\<lparr>st_model := Some (example_model False),
              tabs_children := tabs_children st @ [example_tab_g name],
              graphs := AList.update (''graph-'' @ name) (example_model False, example_params_g, name)
                          (graphs st)\<rparr>))"
    using n by (simp add: after_instantiate_def example_resolve_g bind_res_def example_build_tab_g)
  show ?thesis
    unfolding loop_body_def prod.case i
    by (simp add: bind_res_def a)
qed

lemma example_cfg_AB_loop:
  "models_loop init_state (models example_cfg_AB) = ([Str ''A'', Str ''B''], Inr example_state_AB)"
  unfolding example_cfg_AB_def cfg.simps models_loop.simps example_loop_body example_loop_body_g
    bind_res_Inr_eq
  by (simp add: init_state_def example_state_AB_def)

lemma example_cfg_AB_gui:
  "get_gui example_cfg_AB =
     ([Str ''A'', Str ''B''],
      Inr (register_callbacks \<lparr>app_tabs = tabs_children example_state_AB, app_callbacks = []\<rparr>
             (graphs example_state_AB)))"
  by (rule get_gui_callbacks[OF example_cfg_AB_loop])

lemma example_update_subplot_g:
  "update_subplot (example_model False) example_params [''g''] =
     ([], Inr \<lparr>fig_grid = Some (1, 1), fig_data = [([1, 2], Some (1, 1))]\<rparr>)"
  by (simp add: update_subplot_def make_kamodo_subplots_def make_subplots_def plot_row_def
      example_model_def example_params_def example_defaults_def dict_get_def first_trace_def
      add_trace_def)

lemma example_cfg_f_raises:
  "get_gui \<lparr>models = [(''M'', example_conf True)]\<rparr> =
     ([Str ''M'', Str ''could not plot f with model_params:'', Params example_params],
      Inl PreventUpdate)"
  by (simp add: get_gui_def init_state_def loop_body_def bind_res_def instantiate_step_def
        example_conf_def after_instantiate_def resolve_params_def example_model_def
        example_params_def build_tab_def get_equation_divs_def dict_keys_def Let_def
        make_kamodo_subplots_def make_subplots_def plot_row_def dict_get_def
        example_defaults_def)

lemma example_loop_body_failing:
  assumes "st_model st = Some (example_model False)"
  shows "loop_body st (name, failing_conf) =
     ([Str name, Str (''could not instantiate '' @ name), ExnMsg (Raised ''no such class'')],
      Inr (st\<lparr>tabs_children := tabs_children st @ [example_tab name],
              graphs := AList.update (''graph-'' @ name) (example_model False, example_params, name)
                          (graphs st)\<rparr>))"
proof -
  have i: "instantiate failing_conf = Inl (Raised ''no such class'')"
    by (simp add: failing_conf_def)
  have e: "is_Exception (Raised ''no such class'')" by simp
  have n: "model_items (example_model False) \<noteq> []" by (simp add: example_model_def)
  have r: "resolve_params (example_model False) failing_conf = ([], Inr example_params)"
    by (simp add: resolve_params_def failing_conf_def example_model_def example_params_def)
  show ?thesis
    unfolding loop_body_caught[OF i e] after_instantiate_Some[OF assms] r
    using n by (simp add: bind_res_Inr_eq example_build_tab)
qed

lemma example_cfg_A_failing_loop:
  "models_loop init_state [(''A'', example_conf False)] =
     ([Str ''A''],
      Inr \<lparr>st_model = Some (example_model False), tabs_children = [example_tab ''A''],
           graphs = [(''graph-A'', (example_model False, example_params, ''A''))]\<rparr>)"
  unfolding models_loop.simps example_loop_body bind_res_Inr_eq
  by (simp add: init_state_def)

lemma example_cfg_empty_A_gui:
  "get_gui example_cfg_empty_A =
     ([Str ''E'', Str ''A''],
      Inr (register_callbacks \<lparr>app_tabs = [example_tab ''A''], app_callbacks = []\<rparr>
             [(''graph-A'', (example_model False, example_params, ''A''))]))"
proof -
  have i: "instantiate \<lparr>instantiate = Inr empty_model, plot = None\<rparr> = Inr empty_model" by simp
  have e: "model_items empty_model = []" by (simp add: empty_model_def)
  have "models_loop init_state (models example_cfg_empty_A) =
     ([Str ''E'', Str ''A''],
      Inr \<lparr>st_model = Some (example_model False), tabs_children = [example_tab ''A''],
           graphs = [(''graph-A'', (example_model False, example_params, ''A''))]\<rparr>)"
    by (simp add: example_cfg_empty_A_def loop_body_empty_model[OF i e] example_loop_body
        bind_res_Inr_eq init_state_def)
  from get_gui_callbacks[OF this] show ?thesis by simp
qed

lemma placeholder_subplots:
  "make_kamodo_subplots placeholder_model [''x''] [(''x'', [])] =
     ([], Inr \<lparr>fig_grid = Some (1, 1), fig_data = [([], Some (1, 1))]\<rparr>)"
  by (simp add: make_kamodo_subplots_def make_subplots_def plot_row_def placeholder_model_def
      dict_get_def first_trace_def add_trace_def)



section \<open>The claims\<close>

subsection \<open>Subplot composition\<close>

text \<open>
  C6. Given a non-empty list of variable names, each of which evaluates (called with
  \<^verbatim>\<open>indexing = 'ij'\<close> over its entry of \<^verbatim>\<open>model_params\<close>) to a figure \<open>ev v\<close>
  with at least one trace, \<^verbatim>\<open>make_kamodo_subplots\<close> prints nothing and returns a
  figure whose grid has one row per name and one column, and whose traces are, in the
  order of the names, the first trace of each evaluated figure, the one of the name at
  (0-based) position \<open>i\<close> placed at row \<open>i + 1\<close>, column 1.
\<close>

theorem make_kamodo_subplots_rows:
  assumes "var_names \<noteq> []"
    and "\<And>v. v \<in> set var_names \<Longrightarrow>
            model_figure model v IJ True (dict_get model_params v []) = Inr (ev v)"
    and "\<And>v. v \<in> set var_names \<Longrightarrow> kf_data (ev v) \<noteq> []"
  shows "make_kamodo_subplots model var_names model_params =
           ([], Inr \<lparr>fig_grid = Some (length var_names, 1),
                     fig_data = map (\<lambda>(i, v). (hd (kf_data (ev v)), Some (i + 1, 1)))
                                    (enumerate 0 var_names)\<rparr>)"
proof -
  let ?fig = "\<lparr>fig_grid = Some (length var_names, 1), fig_data = []\<rparr>"
  have "make_subplots (length var_names) 1 = Inr ?fig"
    using assms(1) by (simp add: make_subplots_def)
  moreover have "subplots_loop model model_params 0 var_names ?fig =
     ([], Inr (?fig\<lparr>fig_data := fig_data ?fig @
               map (\<lambda>(i, v). (hd (kf_data (ev v)), Some (i + 1, 1))) (enumerate 0 var_names)\<rparr>))"
    by (rule subplots_loop_ok[where rows = "length var_names"]) (use assms in auto)
  ultimately show ?thesis by (simp add: make_kamodo_subplots_def)
qed

theorem make_kamodo_subplots_rows_witness:
  "[''f'', ''g''] \<noteq> [] \<and>
   make_kamodo_subplots (example_model False) [''f'', ''g''] example_params =
     ([], Inr \<lparr>fig_grid = Some (2, 1),
               fig_data = [([0, 1], Some (1, 1)), ([1, 2], Some (2, 1))]\<rparr>)"
proof -
  have a: "\<And>v. v \<in> set [''f'', ''g''] \<Longrightarrow>
     model_figure (example_model False) v IJ True (dict_get example_params v []) = Inr (example_eval v)"
    by (auto simp: example_model_def example_params_def example_eval_def example_defaults_def
        dict_get_def)
  have b: "\<And>v. v \<in> set [''f'', ''g''] \<Longrightarrow> kf_data (example_eval v) \<noteq> []"
    by (simp add: example_eval_def)
  have n: "[''f'', ''g''] \<noteq> ([] :: string list)" by simp
  from make_kamodo_subplots_rows[OF n a b] show ?thesis
    by (simp add: example_eval_def)
qed

text \<open>
  C2, as the code has it. When the evaluation of a listed variable \<open>f\<close> raises,
  \<^verbatim>\<open>make_kamodo_subplots\<close> raises \<^verbatim>\<open>PreventUpdate\<close>: no figure is
  returned, whatever the other variables do. When every name before \<open>f\<close> evaluates to a
  figure with a trace, the two lines printed are the report for \<open>f\<close> and the parameter
  map. In a selection callback the graph then keeps the figure it showed.
\<close>

theorem failing_variable_aborts_composition:
  assumes "var_names = pre @ f # post"
    and "model_figure model f IJ True (dict_get model_params f []) = Inl e"
  shows "snd (make_kamodo_subplots model var_names model_params) = Inl PreventUpdate \<and>
         ((\<forall>v\<in>set pre. \<exists>kf. model_figure model v IJ True (dict_get model_params v []) = Inr kf \<and>
                 kf_data kf \<noteq> []) \<longrightarrow>
            fst (make_kamodo_subplots model var_names model_params) =
              [Str (''could not plot '' @ f @ '' with model_params:''), Params model_params]) \<and>
         (vals (''checklist-'' @ model_name) = Checked var_names \<longrightarrow>
            fire (subplot_callback graph_id model model_name model_params) vals u = u)"
proof (intro conjI impI)
  have "f \<in> set var_names" using assms(1) by simp
  then show s: "snd (make_kamodo_subplots model var_names model_params) = Inl PreventUpdate"
    using assms(2) by (rule make_kamodo_subplots_some_failure)
  show "fire (subplot_callback graph_id model model_name model_params) vals u = u"
    if "vals (''checklist-'' @ model_name) = Checked var_names"
    unfolding fire_subplot_callback that using s assms(1) by (simp add: update_subplot_def)
  show "fst (make_kamodo_subplots model var_names model_params) =
              [Str (''could not plot '' @ f @ '' with model_params:''), Params model_params]"
    if "\<forall>v\<in>set pre. \<exists>kf. model_figure model v IJ True (dict_get model_params v []) = Inr kf \<and>
                 kf_data kf \<noteq> []"
    unfolding assms(1) make_kamodo_subplots_first_failure[OF that assms(2)] by simp
qed

theorem failing_variable_aborts_composition_witness:
  "make_kamodo_subplots (example_model True) [''g'', ''f''] example_params =
     ([Str ''could not plot f with model_params:'', Params example_params], Inl PreventUpdate) \<and>
   fire (subplot_callback ''graph-M'' (example_model True) ''M'' example_params)
     (\<lambda>_. Checked [''g'', ''f'']) [''graph-M'' \<mapsto> example_figure] =
   [''graph-M'' \<mapsto> example_figure]"
proof -
  have v: "[''g'', ''f''] = [''g''] @ ''f'' # []" by simp
  have r: "model_figure (example_model True) ''f'' IJ True (dict_get example_params ''f'' []) =
     Inl (Raised ''f failed'')"
    by (simp add: example_model_def)
  have p: "\<forall>v\<in>set [''g'']. \<exists>kf.
      model_figure (example_model True) v IJ True (dict_get example_params v []) = Inr kf \<and>
      kf_data kf \<noteq> []"
    by (simp add: example_model_def)
  have c: "(\<lambda>_. Checked [''g'', ''f'']) (''checklist-'' @ ''M'') = Checked [''g'', ''f'']" by simp
  note w = failing_variable_aborts_composition[OF v r,
      where vals = "\<lambda>_. Checked [''g'', ''f'']" and model_name = "''M''"
        and graph_id = "''graph-M''" and u = "[''graph-M'' \<mapsto> example_figure]"]
  have 1: "make_kamodo_subplots (example_model True) [''g'', ''f''] example_params =
     ([Str ''could not plot f with model_params:'', Params example_params], Inl PreventUpdate)"
    using conjunct1[OF w] mp[OF conjunct1[OF conjunct2[OF w]] p]
    by (simp add: prod_eq_iff)
  have 2: "fire (subplot_callback ''graph-M'' (example_model True) ''M'' example_params)
     (\<lambda>_. Checked [''g'', ''f'']) [''graph-M'' \<mapsto> example_figure] =
   [''graph-M'' \<mapsto> example_figure]"
    using mp[OF conjunct2[OF conjunct2[OF w]] c] .
  from 1 2 show ?thesis by (rule conjI)
qed

text \<open>
  The claim C2 as the spec states it fails on a model where \<open>f\<close> raises and \<open>g\<close>
  evaluates: composition over \<open>f\<close> and \<open>g\<close> returns no figure at all, and the initial
  build of a configuration with that model ends in \<^verbatim>\<open>PreventUpdate\<close> instead of
  an application.
\<close>

theorem failing_variable_aborts_composition_counterexample:
  "model_figure (example_model True) ''f'' IJ True (dict_get example_params ''f'' []) =
     Inl (Raised ''f failed'') \<and>
   model_figure (example_model True) ''g'' IJ True (dict_get example_params ''g'' []) =
     Inr \<lparr>kf_data = [[1, 2]], kf_chart_type = ''line''\<rparr> \<and>
   make_kamodo_subplots (example_model True) [''f'', ''g''] example_params =
     ([Str ''could not plot f with model_params:'', Params example_params], Inl PreventUpdate) \<and>
   get_gui \<lparr>models = [(''M'', example_conf True)]\<rparr> =
     ([Str ''M'', Str ''could not plot f with model_params:'', Params example_params],
      Inl PreventUpdate)"
  unfolding example_cfg_f_raises
  by (simp add: example_model_def example_params_def example_defaults_def dict_get_def
      make_kamodo_subplots_def make_subplots_def plot_row_def)

subsection \<open>Selection events\<close>

text \<open>
  C1. Let \<^verbatim>\<open>get_gui\<close> return an application, and let A and B be two entries of
  its dictionary \<^verbatim>\<open>graphs\<close> under different graph ids, each with its model,
  parameter map and model name. A change of A's checklist to \<open>var_names\<close> runs exactly
  the closure registered for A: the figure of A's graph becomes the result of
  \<^verbatim>\<open>update_subplot\<close> on A's own model and A's own parameter map (or stays, when
  that raises), every other graph keeps what it showed, and in particular B's figure is
  unchanged.
\<close>

theorem selection_event_updates_own_graph_only:
  assumes "get_gui c = (out, Inr app)"
    and "models_loop init_state (models c) = (out, Inr st)"
    and "(gA, (mA, psA, nA)) \<in> set (graphs st)"
    and "(gB, (mB, psB, nB)) \<in> set (graphs st)"
    and "gB \<noteq> gA"
    and "vals (''checklist-'' @ nA) = Checked var_names"
  shows "dispatch (app_callbacks app) (''checklist-'' @ nA) vals u =
           (case snd (update_subplot mA psA var_names) of
              Inl e \<Rightarrow> u
            | Inr fig \<Rightarrow> u(gA \<mapsto> fig)) \<and>
         dispatch (app_callbacks app) (''checklist-'' @ nA) vals u gB = u gB"
proof -
  have app: "app = register_callbacks \<lparr>app_tabs = tabs_children st, app_callbacks = []\<rparr> (graphs st)"
    using assms(1) unfolding get_gui_callbacks[OF assms(2)] by simp
  have "graphs_ok (graphs st)"
    by (rule models_loop_graphs_ok[OF assms(2) graphs_ok_init])
  then have d: "distinct (map (\<lambda>(graph_id, (model, model_params, model_name)). model_name) (graphs st))"
    by (rule graphs_ok_names_distinct)
  have "dispatch (app_callbacks app) (''checklist-'' @ nA) vals u =
          fire (subplot_callback gA mA nA psA) vals u"
    unfolding app app_callbacks_register using dispatch_subplot_unique[OF d assms(3)] by simp
  then have 1: "dispatch (app_callbacks app) (''checklist-'' @ nA) vals u =
           (case snd (update_subplot mA psA var_names) of
              Inl e \<Rightarrow> u
            | Inr fig \<Rightarrow> u(gA \<mapsto> fig))"
    unfolding fire_subplot_callback assms(6) by simp
  have "(case snd (update_subplot mA psA var_names) of
              Inl e \<Rightarrow> u
            | Inr fig \<Rightarrow> u(gA \<mapsto> fig)) gB = u gB"
    using assms(5) by (cases "snd (update_subplot mA psA var_names)") simp_all
  with 1 show ?thesis by simp
qed

theorem selection_event_updates_own_graph_only_witness:
  "dispatch
     (app_callbacks (register_callbacks
        \<lparr>app_tabs = tabs_children example_state_AB, app_callbacks = []\<rparr> (graphs example_state_AB)))
     (''checklist-'' @ ''A'') (\<lambda>_. Checked [''g'']) [''graph-B'' \<mapsto> example_figure] =
   [''graph-B'' \<mapsto> example_figure,
    ''graph-A'' \<mapsto> \<lparr>fig_grid = Some (1, 1), fig_data = [([1, 2], Some (1, 1))]\<rparr>] \<and>
   dispatch
     (app_callbacks (register_callbacks
        \<lparr>app_tabs = tabs_children example_state_AB, app_callbacks = []\<rparr> (graphs example_state_AB)))
     (''checklist-'' @ ''A'') (\<lambda>_. Checked [''g'']) [''graph-B'' \<mapsto> example_figure] ''graph-B'' =
   Some example_figure"
proof -
  have a: "(''graph-A'', (example_model False, example_params, ''A'')) \<in> set (graphs example_state_AB)"
    by (simp add: example_state_AB_def)
  have b: "(''graph-B'', (example_model False, example_params_g, ''B'')) \<in> set (graphs example_state_AB)"
    by (simp add: example_state_AB_def)
  have n: "''graph-B'' \<noteq> ''graph-A''" by simp
  have v: "(\<lambda>_. Checked [''g'']) (''checklist-'' @ ''A'') = Checked [''g'']" by simp
  note w = selection_event_updates_own_graph_only[OF example_cfg_AB_gui example_cfg_AB_loop a b n v,
      of "[''graph-B'' \<mapsto> example_figure]"]
  have 1: "dispatch
     (app_callbacks (register_callbacks
        \<lparr>app_tabs = tabs_children example_state_AB, app_callbacks = []\<rparr> (graphs example_state_AB)))
     (''checklist-'' @ ''A'') (\<lambda>_. Checked [''g'']) [''graph-B'' \<mapsto> example_figure] =
   [''graph-B'' \<mapsto> example_figure,
    ''graph-A'' \<mapsto> \<lparr>fig_grid = Some (1, 1), fig_data = [([1, 2], Some (1, 1))]\<rparr>]"
    unfolding conjunct1[OF w] example_update_subplot_g by simp
  have 2: "dispatch
     (app_callbacks (register_callbacks
        \<lparr>app_tabs = tabs_children example_state_AB, app_callbacks = []\<rparr> (graphs example_state_AB)))
     (''checklist-'' @ ''A'') (\<lambda>_. Checked [''g'']) [''graph-B'' \<mapsto> example_figure] ''graph-B'' =
   Some example_figure"
    unfolding conjunct2[OF w] by simp
  from 1 2 show ?thesis by (rule conjI)
qed

text \<open>
  C5. \<^verbatim>\<open>update_subplot\<close> on an empty list of names raises
  \<^verbatim>\<open>PreventUpdate\<close> without printing and without calling
  \<^verbatim>\<open>make_kamodo_subplots\<close>; and in an application returned by
  \<^verbatim>\<open>get_gui\<close>, a checklist change whose new value is the empty list leaves every
  displayed figure as it was.
\<close>

theorem empty_selection_is_noop:
  "update_subplot model model_params [] = ([], Inl PreventUpdate) \<and>
   (get_gui c = (out, Inr app) \<longrightarrow> vals changed = Checked [] \<longrightarrow>
      dispatch (app_callbacks app) changed vals u = u)"
proof (intro conjI impI)
  show "update_subplot model model_params [] = ([], Inl PreventUpdate)"
    by (rule update_subplot_empty)
next
  assume g: "get_gui c = (out, Inr app)" and v: "vals changed = Checked []"
  from get_gui_Inr[OF g] obtain st :: gui_state where
    "app = register_callbacks \<lparr>app_tabs = tabs_children st, app_callbacks = []\<rparr> (graphs st)"
    by blast
  then show "dispatch (app_callbacks app) changed vals u = u"
    using dispatch_subplot_empty[of vals changed, OF v] by (simp add: app_callbacks_register)
qed

theorem empty_selection_is_noop_witness:
  "update_subplot (example_model False) example_params [] = ([], Inl PreventUpdate) \<and>
   dispatch
     (app_callbacks (register_callbacks
        \<lparr>app_tabs = tabs_children example_state_AB, app_callbacks = []\<rparr> (graphs example_state_AB)))
     ''checklist-A'' (\<lambda>_. Checked []) [''graph-A'' \<mapsto> example_figure] =
   [''graph-A'' \<mapsto> example_figure]"
  using empty_selection_is_noop[of "example_model False" example_params example_cfg_AB
      "[Str ''A'', Str ''B'']" _ "\<lambda>_. Checked []" "''checklist-A''" "[''graph-A'' \<mapsto> example_figure]"]
    example_cfg_AB_gui
  by simp

subsection \<open>The registry loop\<close>

text \<open>
  C10. Let the entry \<open>(model_name, conf)\<close> of the configuration come after the entries
  \<open>pre\<close>, which the loop has processed, and let its instantiation raise an
  \<^verbatim>\<open>Exception\<close>. Then \<^verbatim>\<open>model\<close> is still bound to the model most recently
  instantiated with success among \<open>pre\<close>, and the iteration is not skipped: after the
  three printed lines, the rest of the body runs on that model (its emptiness test, the
  resolution of the failed entry's plot configuration against it, and the tab, checklist
  and figure built from it under the failed entry's name); when \<^verbatim>\<open>model\<close> is
  unbound it raises \<^verbatim>\<open>UnboundLocalError\<close>. When the failing entry is the first
  one, \<^verbatim>\<open>get_gui\<close> as a whole ends in \<^verbatim>\<open>UnboundLocalError\<close>.
\<close>

theorem failed_instantiation_falls_through:
  assumes "models c = pre @ (model_name, conf) # post"
    and "models_loop init_state pre = (out, Inr st)"
    and "instantiate conf = Inl e"
    and "is_Exception e"
  shows "st_model st = last_instantiated None pre \<and>
         loop_body st (model_name, conf) =
           bind_res ([Str model_name, Str (''could not instantiate '' @ model_name), ExnMsg e], Inr ())
             (\<lambda>_. case last_instantiated None pre of
                     None \<Rightarrow> ([], Inl UnboundLocalError)
                   | Some model \<Rightarrow>
                       if length (model_items model) = 0 then ([], Inr st)
                       else bind_res (resolve_params model conf) (build_tab st model model_name)) \<and>
         (pre = [] \<longrightarrow>
            get_gui c =
              ([Str model_name, Str (''could not instantiate '' @ model_name), ExnMsg e],
               Inl UnboundLocalError))"
proof (intro conjI impI)
  show m: "st_model st = last_instantiated None pre"
    using models_loop_st_model[OF assms(2)] by (simp add: init_state_def)
  have a: "after_instantiate st model_name conf =
      (case last_instantiated None pre of
         None \<Rightarrow> ([], Inl UnboundLocalError)
       | Some model \<Rightarrow>
           if length (model_items model) = 0 then ([], Inr st)
           else bind_res (resolve_params model conf) (build_tab st model model_name))"
  proof (cases "last_instantiated None pre")
    case None
    then show ?thesis using m by (simp add: after_instantiate_None)
  next
    case (Some model)
    then have "st_model st = Some model" using m by simp
    from after_instantiate_Some[OF this] show ?thesis using Some by simp
  qed
  show b: "loop_body st (model_name, conf) =
           bind_res ([Str model_name, Str (''could not instantiate '' @ model_name), ExnMsg e], Inr ())
             (\<lambda>_. case last_instantiated None pre of
                     None \<Rightarrow> ([], Inl UnboundLocalError)
                   | Some model \<Rightarrow>
                       if length (model_items model) = 0 then ([], Inr st)
                       else bind_res (resolve_params model conf) (build_tab st model model_name))"
    unfolding loop_body_caught[OF assms(3,4)] a ..
  show "get_gui c =
              ([Str model_name, Str (''could not instantiate '' @ model_name), ExnMsg e],
               Inl UnboundLocalError)" if "pre = []"
  proof -
    have st: "st = init_state" and out: "out = []" using assms(2) that by simp_all
    have l: "last_instantiated None pre = None" using that by (simp add: last_instantiated_def)
    have "loop_body init_state (model_name, conf) =
        ([Str model_name, Str (''could not instantiate '' @ model_name), ExnMsg e],
               Inl UnboundLocalError)"
      using b unfolding l st by (simp add: bind_res_Inr_eq)
    then have "models_loop init_state (models c) =
        ([Str model_name, Str (''could not instantiate '' @ model_name), ExnMsg e],
               Inl UnboundLocalError)"
      unfolding assms(1) that by (simp add: bind_res_Inl_eq)
    then show ?thesis by (rule get_gui_raises)
  qed
qed

theorem failed_instantiation_falls_through_witness:
  "last_instantiated None [(''A'', example_conf False)] = Some (example_model False) \<and>
   loop_body
     \<lparr>st_model = Some (example_model False), tabs_children = [example_tab ''A''],
      graphs = [(''graph-A'', (example_model False, example_params, ''A''))]\<rparr>
     (''B'', failing_conf) =
   ([Str ''B'', Str ''could not instantiate B'', ExnMsg (Raised ''no such class'')],
    Inr \<lparr>st_model = Some (example_model False),
         tabs_children = [example_tab ''A'', example_tab ''B''],
         graphs = [(''graph-A'', (example_model False, example_params, ''A'')),
                   (''graph-B'', (example_model False, example_params, ''B''))]\<rparr>) \<and>
   get_gui example_cfg_failing_A =
     ([Str ''B'', Str ''could not instantiate B'', ExnMsg (Raised ''no such class'')],
      Inl UnboundLocalError)"
proof -
  have i: "instantiate failing_conf = Inl (Raised ''no such class'')"
    by (simp add: failing_conf_def)
  have e: "is_Exception (Raised ''no such class'')" by simp
  have c1: "models example_cfg_A_failing = [(''A'', example_conf False)] @ (''B'', failing_conf) # []"
    by (simp add: example_cfg_A_failing_def)
  have c2: "models example_cfg_failing_A = [] @ (''B'', failing_conf) # [(''A'', example_conf False)]"
    by (simp add: example_cfg_failing_A_def)
  have l2: "models_loop init_state [] = ([], Inr init_state)" by simp
  note w1 = failed_instantiation_falls_through[OF c1 example_cfg_A_failing_loop i e]
  note w2 = failed_instantiation_falls_through[OF c2 l2 i e]
  have 1: "last_instantiated None [(''A'', example_conf False)] = Some (example_model False)"
    using conjunct1[OF w1] by simp
  have 2: "loop_body
     \<lparr>st_model = Some (example_model False), tabs_children = [example_tab ''A''],
      graphs = [(''graph-A'', (example_model False, example_params, ''A''))]\<rparr>
     (''B'', failing_conf) =
   ([Str ''B'', Str ''could not instantiate B'', ExnMsg (Raised ''no such class'')],
    Inr \<lparr>st_model = Some (example_model False),
         tabs_children = [example_tab ''A'', example_tab ''B''],
         graphs = [(''graph-A'', (example_model False, example_params, ''A'')),
                   (''graph-B'', (example_model False, example_params, ''B''))]\<rparr>)"
    by (simp add: example_loop_body_failing)
  have 3: "get_gui example_cfg_failing_A =
     ([Str ''B'', Str ''could not instantiate B'', ExnMsg (Raised ''no such class'')],
      Inl UnboundLocalError)"
    using mp[OF conjunct2[OF conjunct2[OF w2]] refl] by simp
  from 1 2 3 show ?thesis by blast
qed

text \<open>
  C3 at a concrete input. With a first model \<open>A\<close> that instantiates and a second model
  \<open>B\<close> whose instantiation raises, the build completes, but \<open>B\<close> is not skipped: it
  gets a tab and a graph built from the model of \<open>A\<close>. With the two entries in the
  other order the loop ends in \<^verbatim>\<open>UnboundLocalError\<close> before \<open>A\<close> is
  processed.
\<close>

theorem failed_instantiation_not_skipped:
  "get_gui example_cfg_A_failing =
     ([Str ''A'', Str ''B'', Str ''could not instantiate B'', ExnMsg (Raised ''no such class'')],
      Inr (register_callbacks
             \<lparr>app_tabs = [example_tab ''A'', example_tab ''B''], app_callbacks = []\<rparr>
             [(''graph-A'', (example_model False, example_params, ''A'')),
              (''graph-B'', (example_model False, example_params, ''B''))])) \<and>
   models_loop init_state (models example_cfg_failing_A) =
     ([Str ''B'', Str ''could not instantiate B'', ExnMsg (Raised ''no such class'')],
      Inl UnboundLocalError)"
proof -
  have l: "models_loop init_state (models example_cfg_A_failing) =
     ([Str ''A'', Str ''B'', Str ''could not instantiate B'', ExnMsg (Raised ''no such class'')],
      Inr \<lparr>st_model = Some (example_model False),
         tabs_children = [example_tab ''A'', example_tab ''B''],
         graphs = [(''graph-A'', (example_model False, example_params, ''A'')),
                   (''graph-B'', (example_model False, example_params, ''B''))]\<rparr>)"
    by (simp add: example_cfg_A_failing_def init_state_def example_loop_body
        example_loop_body_failing bind_res_Inr_eq)
  have i: "instantiate failing_conf = Inl (Raised ''no such class'')"
    by (simp add: failing_conf_def)
  have e: "is_Exception (Raised ''no such class'')" by simp
  have b: "loop_body init_state (''B'', failing_conf) =
     ([Str ''B'', Str ''could not instantiate B'', ExnMsg (Raised ''no such class'')],
      Inl UnboundLocalError)"
    unfolding loop_body_caught[OF i e]
    by (simp add: after_instantiate_None init_state_def bind_res_Inr_eq)
  have 2: "models_loop init_state (models example_cfg_failing_A) =
     ([Str ''B'', Str ''could not instantiate B'', ExnMsg (Raised ''no such class'')],
      Inl UnboundLocalError)"
    unfolding example_cfg_failing_A_def cfg.simps models_loop.simps b bind_res_Inl_eq ..
  from get_gui_callbacks[OF l] 2 show ?thesis by simp
qed

text \<open>
  C8, as the code has it. A model that instantiates with no member at all is skipped by
  the \<^verbatim>\<open>continue\<close> of line 108: its iteration only prints the name and rebinds
  \<^verbatim>\<open>model\<close>, leaving the tabs and \<^verbatim>\<open>graphs\<close> as they were; and when the
  names of the configuration are distinct, no tab of the application returned by
  \<^verbatim>\<open>get_gui\<close> carries its name.
\<close>

theorem empty_model_has_no_tab:
  assumes "instantiate conf = Inr m"
    and "model_items m = []"
  shows "loop_body st (model_name, conf) = ([Str model_name], Inr (st\<lparr>st_model := Some m\<rparr>)) \<and>
         (get_gui c = (out, Inr app) \<longrightarrow> distinct (map fst (models c)) \<longrightarrow>
          (model_name, conf) \<in> set (models c) \<longrightarrow>
            model_name \<notin> set (map tab_label (app_tabs app)))"
proof (intro conjI impI)
  show "loop_body st (model_name, conf) = ([Str model_name], Inr (st\<lparr>st_model := Some m\<rparr>))"
    by (rule loop_body_empty_model[OF assms])
next
  assume g: "get_gui c = (out, Inr app)" and d: "distinct (map fst (models c))"
    and i: "(model_name, conf) \<in> set (models c)"
  from get_gui_Inr[OF g] obtain st1 :: gui_state where
    l: "models_loop init_state (models c) = (out, Inr st1)" and
    app: "app = register_callbacks \<lparr>app_tabs = tabs_children st1, app_callbacks = []\<rparr> (graphs st1)"
    by blast
  have tabs: "app_tabs app = tabs_children st1" unfolding app app_tabs_register by simp
  show "model_name \<notin> set (map tab_label (app_tabs app))"
  proof
    assume "model_name \<in> set (map tab_label (app_tabs app))"
    then obtain t where t: "t \<in> set (tabs_children st1)" "tab_label t = model_name"
      unfolding tabs by auto
    from models_loop_tabs[OF l t(1)] obtain conf' where
      c': "(model_name, conf') \<in> set (models c)"
      "\<forall>m. instantiate conf' = Inr m \<longrightarrow> model_items m \<noteq> []"
      unfolding t(2) by (auto simp: init_state_def)
    have "conf' = conf" using d i c'(1) by (meson eq_key_imp_eq_value)
    then show False using c'(2) assms by simp
  qed
qed

theorem empty_model_has_no_tab_witness:
  "loop_body init_state (''E'', \<lparr>instantiate = Inr empty_model, plot = None\<rparr>) =
     ([Str ''E''], Inr (init_state\<lparr>st_model := Some empty_model\<rparr>)) \<and>
   ''E'' \<notin> set (map tab_label (app_tabs (register_callbacks
             \<lparr>app_tabs = [example_tab ''A''], app_callbacks = []\<rparr>
             [(''graph-A'', (example_model False, example_params, ''A''))])))"
proof -
  have i: "instantiate \<lparr>instantiate = Inr empty_model, plot = None\<rparr> = Inr empty_model" by simp
  have e: "model_items empty_model = []" by (simp add: empty_model_def)
  have d: "distinct (map fst (models example_cfg_empty_A))"
    by (simp add: example_cfg_empty_A_def)
  have m: "(''E'', \<lparr>instantiate = Inr empty_model, plot = None\<rparr>) \<in> set (models example_cfg_empty_A)"
    by (simp add: example_cfg_empty_A_def)
  note w = empty_model_has_no_tab[OF i e, where st = init_state and model_name = "''E''"
      and c = example_cfg_empty_A]
  from conjunct1[OF w] mp[OF mp[OF mp[OF conjunct2[OF w] example_cfg_empty_A_gui] d] m]
  show ?thesis by (rule conjI)
qed

text \<open>
  The claim C8 as the spec states it fails on a model whose only member is an Independent
  placeholder: it has no Dependent variable, its length is 1, and \<^verbatim>\<open>get_gui\<close>
  gives it a tab and a graph.
\<close>

theorem empty_model_has_no_tab_counterexample:
  "filter (\<lambda>(var_symbol, func). \<not> is_undefined_function var_symbol)
     (model_items placeholder_model) = [] \<and>
   get_gui example_cfg_placeholder =
     ([Str ''P''],
      Inr (register_callbacks \<lparr>app_tabs = [placeholder_tab], app_callbacks = []\<rparr>
             [(''graph-P'', (placeholder_model, [(''x'', [])], ''P''))]))"
proof -
  have i: "instantiate \<lparr>instantiate = Inr placeholder_model, plot = None\<rparr> = Inr placeholder_model"
    by simp
  have r: "resolve_params placeholder_model \<lparr>instantiate = Inr placeholder_model, plot = None\<rparr> =
      ([], Inr [(''x'', [])])"
    by (simp add: resolve_params_def placeholder_model_def)
  have q: "get_equation_divs placeholder_model ''P'' [(''x'', [])] =
      Inr \<lparr>checklist_id = ''checklist-P'', checklist_options = [], checklist_value = [],
         equation_children = []\<rparr>"
    by (simp add: get_equation_divs_def placeholder_model_def)
  have k: "dict_keys [(''x'', [] :: kwargs)] = [''x'']" by (simp add: dict_keys_def)
  have n: "model_items placeholder_model \<noteq> []" by (simp add: placeholder_model_def)
  have b: "build_tab (init_state\<lparr>st_model := Some placeholder_model\<rparr>) placeholder_model ''P'' [(''x'', [])] =
     ([], Inr \<lparr>st_model = Some placeholder_model, tabs_children = [placeholder_tab],
           graphs = [(''graph-P'', (placeholder_model, [(''x'', [])], ''P''))]\<rparr>)"
    unfolding build_tab_def q k placeholder_subplots Let_def
    by (simp add: bind_res_Inr_eq init_state_def placeholder_tab_def)
  have "models_loop init_state (models example_cfg_placeholder) =
     ([Str ''P''],
      Inr \<lparr>st_model = Some placeholder_model, tabs_children = [placeholder_tab],
           graphs = [(''graph-P'', (placeholder_model, [(''x'', [])], ''P''))]\<rparr>)"
    unfolding example_cfg_placeholder_def cfg.simps models_loop.simps loop_body_ok[OF i]
    using n by (simp add: after_instantiate_def r b bind_res_Inr_eq)
  from get_gui_callbacks[OF this] show ?thesis
    by (simp add: placeholder_model_def)
qed

text \<open>
  C4, as the code has it. Let the entry \<open>(model_name, conf)\<close> come after the entries
  \<open>pre\<close>, which the loop has processed; let it instantiate to a model with members, and
  let its plot configuration have a null entry for \<open>var_name\<close> whose defaults cannot be
  fetched (\<^verbatim>\<open>get_defaults(model[var_name])\<close> raises an \<^verbatim>\<open>Exception\<close>), the
  entries before it having been resolved. Then \<^verbatim>\<open>get_gui\<close> prints
  \<^verbatim>\<open>model.detail\<close> and the exception and ends in \<^verbatim>\<open>SystemExit\<close>: the
  failure is reported, and it ends the whole build.
\<close>

theorem missing_defaults_exit:
  assumes "models c = pre @ (model_name, conf) # post"
    and "models_loop init_state pre = (out, Inr st)"
    and "instantiate conf = Inr m"
    and "model_items m \<noteq> []"
    and "plot conf = Some (es @ (var_name, None) # es')"
    and "params_from_plot m es [] = (o1, Inr mp)"
    and "(case model_getitem m var_name of Inl e \<Rightarrow> Inl e | Inr f \<Rightarrow> get_defaults f) = Inl e"
    and "is_Exception e"
  shows "get_gui c =
           (out @ [Str model_name] @ o1 @ [Detail (model_detail m), ExnMsg e], Inl SystemExit)"
proof -
  have r: "resolve_params m conf = (o1 @ [Detail (model_detail m), ExnMsg e], Inl SystemExit)"
    unfolding resolve_params_def assms(5) option.case
      params_from_plot_append[OF assms(6)] params_from_plot_null_fails[OF assms(7,8)]
    by simp
  have "after_instantiate (st\<lparr>st_model := Some m\<rparr>) model_name conf =
          (o1 @ [Detail (model_detail m), ExnMsg e], Inl SystemExit)"
    using assms(4) by (simp add: after_instantiate_def r bind_res_Inl_eq)
  then have b: "loop_body st (model_name, conf) =
          ([Str model_name] @ o1 @ [Detail (model_detail m), ExnMsg e], Inl SystemExit)"
    unfolding loop_body_ok[OF assms(3)] by (simp add: bind_res_Inr_eq)
  have "models_loop init_state (models c) =
          (out @ [Str model_name] @ o1 @ [Detail (model_detail m), ExnMsg e], Inl SystemExit)"
    unfolding assms(1) by (rule models_loop_prefix_raises[OF assms(2) b])
  then show ?thesis by (rule get_gui_raises)
qed

theorem missing_defaults_exit_witness:
  "get_gui example_cfg_nodefaults =
     ([Str ''M1'', Detail ''nodefaults'', ExnMsg (Raised ''no defaults'')], Inl SystemExit)"
proof -
  have c: "models example_cfg_nodefaults = [] @ (''M1'', nodefaults_conf) # [(''M2'', example_conf False)]"
    by (simp add: example_cfg_nodefaults_def)
  have l: "models_loop init_state [] = ([], Inr init_state)" by simp
  have i: "instantiate nodefaults_conf = Inr nodefaults_model" by (simp add: nodefaults_conf_def)
  have n: "model_items nodefaults_model \<noteq> []" by (simp add: nodefaults_model_def)
  have p: "plot nodefaults_conf = Some ([] @ (''f'', None) # [])" by (simp add: nodefaults_conf_def)
  have q: "params_from_plot nodefaults_model [] [] = ([], Inr [])" by simp
  have g: "(case model_getitem nodefaults_model ''f'' of Inl e \<Rightarrow> Inl e | Inr f \<Rightarrow> get_defaults f) =
      Inl (Raised ''no defaults'')"
    by (simp add: nodefaults_model_def)
  have e: "is_Exception (Raised ''no defaults'')" by simp
  from missing_defaults_exit[OF c l i n p q g e] show ?thesis
    by (simp add: nodefaults_model_def)
qed

text \<open>
  The claim C4 as the spec states it fails on a configuration whose first model lacks the
  defaults its null plot entry asks for and whose second model is fine: the build ends in
  \<^verbatim>\<open>SystemExit\<close> and the second model is never reached (its name is not even
  printed), although on its own it builds.
\<close>

theorem missing_defaults_exit_counterexample:
  "snd (get_gui example_cfg_nodefaults) = Inl SystemExit \<and>
   Str ''M2'' \<notin> set (fst (get_gui example_cfg_nodefaults)) \<and>
   get_gui \<lparr>models = [(''M2'', example_conf False)]\<rparr> =
     ([Str ''M2''],
      Inr (register_callbacks \<lparr>app_tabs = [example_tab ''M2''], app_callbacks = []\<rparr>
             [(''graph-M2'', (example_model False, example_params, ''M2''))]))"
proof -
  have b: "loop_body init_state (''M1'', nodefaults_conf) =
      ([Str ''M1'', Detail ''nodefaults'', ExnMsg (Raised ''no defaults'')], Inl SystemExit)"
    by (simp add: loop_body_def instantiate_step_def nodefaults_conf_def bind_res_Inr_eq
        after_instantiate_def nodefaults_model_def resolve_params_def bind_res_Inl_eq)
  have g: "get_gui example_cfg_nodefaults =
     ([Str ''M1'', Detail ''nodefaults'', ExnMsg (Raised ''no defaults'')], Inl SystemExit)"
    by (rule get_gui_raises) (simp add: example_cfg_nodefaults_def b bind_res_Inl_eq)
  have "models_loop init_state (models \<lparr>models = [(''M2'', example_conf False)]\<rparr>) =
     ([Str ''M2''],
      Inr \<lparr>st_model = Some (example_model False), tabs_children = [example_tab ''M2''],
           graphs = [(''graph-M2'', (example_model False, example_params, ''M2''))]\<rparr>)"
    by (simp add: example_loop_body bind_res_Inr_eq init_state_def)
  from get_gui_callbacks[OF this] show ?thesis unfolding g by simp
qed

subsection \<open>Range edits\<close>

text \<open>
  C9. For a count of at least 2, the materialized sequence has \<open>count\<close> points, starts
  at the minimum, ends at the maximum and has the constant spacing
  \<open>(max - min) / (count - 1)\<close>; it is what the call of \<^verbatim>\<open>np.linspace\<close> in
  \<^verbatim>\<open>update_figure\<close> returns for a slider value \<open>[min, max]\<close> and that count. For
  min 0, max 10 and count 5 it is exactly 0, 2.5, 5, 7.5, 10, and this is the sample
  sequence \<^verbatim>\<open>update_figure\<close> binds to the parameter.
\<close>

theorem domain_materialization:
  "(2 \<le> count \<longrightarrow>
      length (linspace_points lo hi count) = count \<and>
      hd (linspace_points lo hi count) = lo \<and>
      last (linspace_points lo hi count) = hi \<and>
      (\<forall>i. Suc i < count \<longrightarrow>
         linspace_points lo hi count ! Suc i - linspace_points lo hi count ! i =
           (hi - lo) / real (count - 1))) \<and>
   linspace_call (Range [lo, hi]) (Count (int count)) = Inr (linspace_points lo hi count) \<and>
   linspace_points 0 10 5 = [0, 5/2, 5, 15/2, 10] \<and>
   plot_args_loop [k] 0 [Range [0, 10], Count 5] [] = Inr [(k, [0, 5/2, 5, 15/2, 10])]"
proof (intro conjI impI allI)
  show "linspace_call (Range [lo, hi]) (Count (int count)) = Inr (linspace_points lo hi count)"
    by (simp add: linspace_call_def)
  show e: "linspace_points 0 10 5 = [0, 5/2, 5, 15/2, 10]" by (rule linspace_points_example)
  have "linspace_call (Range [0, 10]) (Count 5) = Inr [0, 5/2, 5, 15/2, 10]"
    using e by (simp add: linspace_call_def)
  then show "plot_args_loop [k] 0 [Range [0, 10], Count 5] [] = Inr [(k, [0, 5/2, 5, 15/2, 10])]"
    by (simp add: py_index_def)
qed (simp_all add: linspace_points_length linspace_points_ends linspace_points_step)

theorem domain_materialization_witness:
  "length (linspace_points 0 10 5) = 5 \<and> hd (linspace_points 0 10 5) = 0 \<and>
   last (linspace_points 0 10 5) = 10 \<and>
   linspace_points 0 10 5 ! Suc 1 - linspace_points 0 10 5 ! 1 = 5/2 \<and>
   linspace_points 0 10 5 = [0, 5/2, 5, 15/2, 10]"
proof -
  note w = domain_materialization[of 5 0 10 "''x''"]
  have c: "(2::nat) \<le> 5" by simp
  note a = mp[OF conjunct1[OF w] c]
  have s: "Suc 1 < (5::nat)" by simp
  have "linspace_points 0 10 5 ! Suc 1 - linspace_points 0 10 5 ! 1 = (10 - 0) / real (5 - 1)"
    using a s by blast
  then have "linspace_points 0 10 5 ! Suc 1 - linspace_points 0 10 5 ! 1 = 5/2" by simp
  moreover have "linspace_points 0 10 5 = [0, 5/2, 5, 15/2, 10]" using w by blast
  ultimately show ?thesis using a by blast
qed




end
